theory Spec2Isabelle
  imports Main "HOL-Library.Sublist"
begin

section \<open>Promises, exceptions and the trace of effects\<close>

text \<open>
  The OIDC client of \<^verbatim>\<open>oidc-service.ts\<close> is a sequence of asynchronous steps. An
  \<^verbatim>\<open>async\<close> function is modelled by the final state of the promise it returns: it
  resolves with a value, rejects with the exception that escaped its body, or never
  settles. Everything the function does to the outside (logging, storage, navigation,
  calls of the OAuth library) is recorded in a trace, in program order. The events
  \<open>AuthorizationCodeGrantRequest\<close> and \<open>RefreshTokenGrantRequest\<close> record that the
  library function of that name was called, with the arguments that vary between calls
  (validated response, redirect URI and code verifier; refresh token).
\<close>

datatype exn =
    SyntaxError
  | TypeError
  | AuthorizationResponseError
  | OperationProcessingError
  | InvalidTokenError
  | OtherError string
  | NoReason

datatype 'a promise = Resolved 'a | Rejected exn | Pending

type_synonym params = "(string \<times> string) list"

record url =
  url_base :: string
  pathname :: string
  searchParams :: params
  url_hash :: string

datatype level = Debug | Info | Warn | Error

datatype payload =
    NoPayload
  | PString "string option"
  | PParams params
  | PUrl url
  | PExn exn
  | POAuth2Error "string option" "string option" "string option"

datatype http_response = HttpResponse nat string

datatype event =
    Log level string payload
  | LocalStorageRemoveItem string
  | LocalStorageSetItem string string
  | SessionStorageSetItem string string
  | LocationAssign url
  | HistoryReplaceState "string option"
  | SetupFetch
  | AuthorizationCodeGrantRequest "params option" string "string option"
  | RefreshTokenGrantRequest "string option"
  | UserServiceSetToken "string option"
  | UserServiceLogout

section \<open>Data model\<close>

text \<open>
  The records follow the TypeScript declarations. A field that may be \<^verbatim>\<open>null\<close> or
  \<^verbatim>\<open>undefined\<close> at run time is an \<open>option\<close>; JavaScript's truthiness test on
  such a field (\<^verbatim>\<open>if (x)\<close>, \<^verbatim>\<open>!x\<close>) is \<open>truthy\<close>: absent values and the
  empty string are falsy. Field names are the source's; where two types of the source
  share a field name, the second carries a prefix (\<open>cl_\<close> for the client descriptor,
  \<open>tr_\<close> for a token endpoint response, \<open>ld_\<close> for the stored login data,
  \<open>jwt_\<close> for a decoded token). Times are whole seconds or milliseconds, as \<open>int\<close>.
\<close>

definition truthy :: "string option \<Rightarrow> bool" where
  "truthy v = (case v of None \<Rightarrow> False | Some s \<Rightarrow> s \<noteq> [])"

record AuthorizationServer =
  issuer :: string
  authorization_endpoint :: "string option"
  end_session_endpoint :: "string option"
  authorization_response_iss_parameter_supported :: "bool option"

text \<open>
  \<open>auth_method\<close> is the field \<^verbatim>\<open>OidcConfig.method\<close> of the source, renamed because
  the plain name is taken in Isabelle.
\<close>

record OidcConfig =
  auth_method :: "string option"
  provider :: "string option"
  client_id :: string
  response_mode :: string
  scope :: string
  redirect_uri :: string
  code_challenge_method :: "string option"
  prompt :: "string option"
  openid_configuration :: "AuthorizationServer option"

record UserInfo =
  user :: "string option"
  access_token :: "string option"
  refresh_token :: "string option"
  at_exp :: int

record Client =
  cl_client_id :: string
  token_endpoint_auth_method :: string

text \<open>The object kept under \<^verbatim>\<open>hawtio-oidc-login\<close>: \<^verbatim>\<open>{st, cv, n, h}\<close>.\<close>

record loginData =
  ld_st :: "string option"
  ld_cv :: "string option"
  ld_n :: "string option"
  ld_h :: "string option"

record TokenEndpointResponse =
  tr_access_token :: string
  tr_refresh_token :: "string option"

record JwtPayload =
  jwt_exp :: "int option"

record IDToken =
  preferred_username :: "string option"
  sub :: string

text \<open>
  \<^verbatim>\<open>JSON.parse\<close> throws a \<^verbatim>\<open>SyntaxError\<close>, returns \<^verbatim>\<open>null\<close> (for the text
  \<^verbatim>\<open>null\<close>), or returns a value that the source then reads as the declared type.
\<close>

datatype 'a parsed = ParseThrows | ParsedNull | Parsed 'a

text \<open>
  The arguments of \<^verbatim>\<open>fetch(input, init)\<close>; only the headers of \<^verbatim>\<open>init\<close> are read.
  \<^verbatim>\<open>init.headers\<close> is absent, a plain object, a \<^verbatim>\<open>Headers\<close> instance or an array
  of pairs.
\<close>

datatype headers_init =
    HeadersUndefined
  | HeadersRecord "string \<rightharpoonup> string"
  | HeadersInstance "(string \<times> string) list"
  | HeadersArray "(string \<times> string) list"

record request =
  req_input :: string
  req_headers :: headers_init

text \<open>
  What the wrapper hands to the original \<^verbatim>\<open>fetch\<close>: the headers are the plain object
  it has built. A property of that object is a string, or, when the caller's headers were
  an array of pairs, one of those pairs.
\<close>

datatype header_value = HeaderString string | HeaderEntry string string

record sent_request =
  sent_input :: string
  sent_headers :: "string \<rightharpoonup> header_value"

section \<open>The environment\<close>

text \<open>
  Everything the service reads from the browser, and every function of the libraries
  \<^verbatim>\<open>oauth4webapi\<close> and \<^verbatim>\<open>jwt-decode\<close> that it calls, is a field of the
  environment. A library function that can throw or reject returns \<open>exn + 'a\<close>.
\<close>

record env =
  location_hash :: string
  location_search :: string
  location_href :: string
  isSecureContext :: bool
  localStorage_getItem :: "string \<Rightarrow> string option"
  getBasePath :: "string option"
  getCookie :: "string \<Rightarrow> string option"
  Date_now :: int
  URLSearchParams_new :: "string \<Rightarrow> params"
  URL_new :: "string \<Rightarrow> url option"
  JSON_parse :: "string \<Rightarrow> loginData parsed"
  JSON_stringify :: "loginData \<Rightarrow> string"
  generateRandomCodeVerifier :: string
  generateRandomState :: string
  generateRandomNonce :: string
  calculatePKCECodeChallenge :: "string \<Rightarrow> string"
  discoveryRequest :: "url \<Rightarrow> exn + http_response"
  processDiscoveryResponse :: "url \<Rightarrow> http_response \<Rightarrow> exn + AuthorizationServer"
  validateAuthResponse ::
    "AuthorizationServer \<Rightarrow> Client \<Rightarrow> params \<Rightarrow> string option \<Rightarrow> exn + params"
  authorizationCodeGrantRequest ::
    "AuthorizationServer \<Rightarrow> Client \<Rightarrow> params option \<Rightarrow> string \<Rightarrow> string option \<Rightarrow> exn + http_response"
  processAuthorizationCodeResponse ::
    "AuthorizationServer \<Rightarrow> Client \<Rightarrow> http_response \<Rightarrow> string option \<Rightarrow> exn + TokenEndpointResponse"
  refreshTokenGrantRequest ::
    "AuthorizationServer \<Rightarrow> Client \<Rightarrow> string option \<Rightarrow> exn + http_response"
  processRefreshTokenResponse ::
    "AuthorizationServer \<Rightarrow> Client \<Rightarrow> http_response \<Rightarrow> exn + TokenEndpointResponse"
  jwtDecode :: "string \<Rightarrow> exn + JwtPayload"
  getValidatedIdTokenClaims :: "TokenEndpointResponse \<Rightarrow> IDToken option"
  originalFetch :: "sent_request \<Rightarrow> http_response promise"

section \<open>Sequencing\<close>

definition emit :: "event list \<Rightarrow> event list \<times> 'a \<Rightarrow> event list \<times> 'a" where
  "emit es r = (es @ fst r, snd r)"

text \<open>\<^verbatim>\<open>await p\<close>: continue with the value of \<open>p\<close>, rethrow its rejection, or hang.\<close>

definition await :: "'a promise \<Rightarrow> ('a \<Rightarrow> event list \<times> 'b promise) \<Rightarrow> event list \<times> 'b promise" where
  "await p k = (case p of Resolved v \<Rightarrow> k v | Rejected e \<Rightarrow> ([], Rejected e) | Pending \<Rightarrow> ([], Pending))"

section \<open>Configuration and enablement\<close>

datatype fetch_result = FetchOk string | FetchFailed

text \<open>
  Modelled from the spec: \<^verbatim>\<open>fetchPath\<close> of \<^verbatim>\<open>@hawtiosrc/util/fetch\<close> is not among
  the sources. It fetches the path once and hands the text to the \<^verbatim>\<open>success\<close>
  callback; if the document is absent the \<^verbatim>\<open>error\<close> callback gives the result.
\<close>

definition fetchPath :: "fetch_result \<Rightarrow> (string \<Rightarrow> 'a) \<Rightarrow> 'a \<Rightarrow> 'a promise" where
  "fetchPath r success error =
     (case r of FetchOk data \<Rightarrow> Resolved (success data) | FetchFailed \<Rightarrow> Resolved error)"

text \<open>The \<^verbatim>\<open>config\<close> promise of the constructor, with its two callbacks.\<close>

definition config_success :: "(string \<Rightarrow> OidcConfig parsed) \<Rightarrow> string \<Rightarrow> OidcConfig option" where
  "config_success parse data =
     (case parse data of ParseThrows \<Rightarrow> None | ParsedNull \<Rightarrow> None | Parsed c \<Rightarrow> Some c)"

definition load_config :: "(string \<Rightarrow> OidcConfig parsed) \<Rightarrow> fetch_result \<Rightarrow> OidcConfig option promise" where
  "load_config parse r = fetchPath r (config_success parse) None"

definition isOidcEnabled :: "OidcConfig option promise \<Rightarrow> bool promise" where
  "isOidcEnabled config =
     (case config of
        Resolved cfg \<Rightarrow>
          Resolved (case cfg of None \<Rightarrow> False
                    | Some c \<Rightarrow> auth_method c = Some ''oidc'' \<and> provider c \<noteq> None)
      | Rejected e \<Rightarrow> Rejected e
      | Pending \<Rightarrow> Pending)"

definition response_ok :: "http_response \<Rightarrow> bool" where
  "response_ok r = (case r of HttpResponse status body \<Rightarrow> 200 \<le> status \<and> status \<le> 299)"

definition fetchOidcMetadata ::
  "env \<Rightarrow> bool promise \<Rightarrow> OidcConfig option promise \<Rightarrow> event list \<times> AuthorizationServer option promise" where
  "fetchOidcMetadata e enabledP configP =
     await enabledP (\<lambda>enabled. await configP (\<lambda>cfg.
       case cfg of
         None \<Rightarrow> ([Log Debug ''OpenID authorization is disabled'' NoPayload], Resolved None)
       | Some c \<Rightarrow>
           if \<not> enabled then ([Log Debug ''OpenID authorization is disabled'' NoPayload], Resolved None)
           else (case openid_configuration c of
                   Some md \<Rightarrow> ([Log Info ''Using pre-fetched openid-configuration'' NoPayload], Resolved (Some md))
                 | None \<Rightarrow>
                     emit [Log Info ''Fetching openid-configuration'' NoPayload]
                       (case provider c of
                          None \<Rightarrow> ([], Rejected TypeError)
                        | Some p \<Rightarrow>
                            (case URL_new e p of
                               None \<Rightarrow> ([], Rejected TypeError)
                             | Some cfgUrl \<Rightarrow>
                                 (case discoveryRequest e cfgUrl of
                                    Inl ex \<Rightarrow> ([Log Error ''Failed OIDC discovery request'' (PExn ex)], Resolved None)
                                  | Inr res \<Rightarrow>
                                      if \<not> response_ok res then ([], Resolved None)
                                      else (case processDiscoveryResponse e cfgUrl res of
                                              Inl ex \<Rightarrow> ([], Rejected ex)
                                            | Inr md \<Rightarrow> ([], Resolved (Some md)))))))))"

section \<open>Session bootstrap\<close>

text \<open>
  \<^verbatim>\<open>URLSearchParams.get\<close> returns the first value of a name;
  \<^verbatim>\<open>URLSearchParams.set\<close> overwrites the first pair of that name and removes the
  others, or appends a pair when the name is new. Pairs of other names stay.
\<close>

definition searchParams_get :: "params \<Rightarrow> string \<Rightarrow> string option" where
  "searchParams_get ps name = map_of ps name"

fun searchParams_set :: "string \<Rightarrow> string \<Rightarrow> params \<Rightarrow> params" where
  "searchParams_set name v [] = [(name, v)]"
| "searchParams_set name v ((k, w) # ps) =
     (if k = name then (name, v) # filter (\<lambda>p. fst p \<noteq> name) ps
      else (k, w) # searchParams_set name v ps)"

definition url_set :: "string \<Rightarrow> string \<Rightarrow> url \<Rightarrow> url" where
  "url_set name v u = u\<lparr>searchParams := searchParams_set name v (searchParams u)\<rparr>"

definition urlParams_of :: "env \<Rightarrow> OidcConfig \<Rightarrow> params option" where
  "urlParams_of e config =
     (if response_mode config = ''fragment'' then
        (if location_hash e \<noteq> [] then Some (URLSearchParams_new e (drop 1 (location_hash e)))
         else None)
      else if response_mode config = ''query'' then
        (if location_search e \<noteq> [] then Some (URLSearchParams_new e (drop 1 (location_search e)))
         else None)
      else None)"

definition goodParamsRequired :: "AuthorizationServer \<Rightarrow> string list" where
  "goodParamsRequired as =
     [''code'', ''state'']
     @ (if authorization_response_iss_parameter_supported as = Some True then [''iss''] else [])"

definition errorParamsRequired :: "string list" where
  "errorParamsRequired = [''error'']"

definition oauthSuccess :: "AuthorizationServer \<Rightarrow> params option \<Rightarrow> bool" where
  "oauthSuccess as urlParams =
     (case urlParams of
        None \<Rightarrow> False
      | Some ps \<Rightarrow> list_all (\<lambda>p. searchParams_get ps p \<noteq> None) (goodParamsRequired as))"

definition oauthError :: "params option \<Rightarrow> bool" where
  "oauthError urlParams =
     (case urlParams of
        None \<Rightarrow> False
      | Some ps \<Rightarrow> list_ex (\<lambda>p. searchParams_get ps p \<noteq> None) errorParamsRequired)"

text \<open>\<^verbatim>\<open>urlParams?.get(name)\<close>\<close>

definition opt_get :: "params option \<Rightarrow> string \<Rightarrow> string option" where
  "opt_get urlParams name = (case urlParams of None \<Rightarrow> None | Some ps \<Rightarrow> searchParams_get ps name)"

definition client_of :: "OidcConfig \<Rightarrow> Client" where
  "client_of config = \<lparr>cl_client_id = client_id config, token_endpoint_auth_method = ''none''\<rparr>"

subsection \<open>First visit: redirect to the provider\<close>

definition connect_login_redirect :: "string option \<Rightarrow> string \<Rightarrow> string" where
  "connect_login_redirect basePath path =
     (if truthy basePath \<and> prefix (case basePath of Some b \<Rightarrow> b | None \<Rightarrow> []) path then
        (let redirect = drop (length (case basePath of Some b \<Rightarrow> b | None \<Rightarrow> [])) path
         in if prefix ''/'' redirect then drop 1 redirect else redirect)
      else path)"

text \<open>The \<^verbatim>\<open>searchParams.set\<close> calls on the authorization URL, in source order.\<close>

definition authorization_url :: "OidcConfig \<Rightarrow> string \<Rightarrow> string \<Rightarrow> string \<Rightarrow> url \<Rightarrow> url" where
  "authorization_url config code_challenge state nonce authorizationUrl =
     (let u1 = url_set ''response_type'' ''code'' authorizationUrl;
          u2 = url_set ''response_mode'' (response_mode config) u1;
          u3 = url_set ''client_id'' (client_id config) u2;
          u4 = url_set ''redirect_uri'' (redirect_uri config) u3;
          u5 = url_set ''scope'' (scope config) u4;
          u6 = (case code_challenge_method config of
                  None \<Rightarrow> u5
                | Some m \<Rightarrow>
                    if m \<noteq> [] then
                      url_set ''code_challenge'' code_challenge (url_set ''code_challenge_method'' m u5)
                    else u5);
          u7 = url_set ''state'' state u6
      in url_set ''nonce'' nonce u7)"

text \<open>The same assignments as a list: the pairs that are set, in the order they are set.\<close>

definition authorization_params :: "OidcConfig \<Rightarrow> string \<Rightarrow> string \<Rightarrow> string \<Rightarrow> params" where
  "authorization_params config code_challenge state nonce =
     [(''response_type'', ''code''),
      (''response_mode'', response_mode config),
      (''client_id'', client_id config),
      (''redirect_uri'', redirect_uri config),
      (''scope'', scope config)]
     @ (case code_challenge_method config of
          None \<Rightarrow> []
        | Some m \<Rightarrow>
            if m \<noteq> [] then [(''code_challenge_method'', m), (''code_challenge'', code_challenge)]
            else [])
     @ [(''state'', state), (''nonce'', nonce)]"

definition login_redirect ::
  "env \<Rightarrow> OidcConfig \<Rightarrow> AuthorizationServer \<Rightarrow> event list \<times> UserInfo option promise" where
  "login_redirect e config as =
     (let code_verifier = generateRandomCodeVerifier e in
      if \<not> isSecureContext e then
        ([Log Error ''Can't perform OpenID Connect authentication in non-secure context'' NoPayload],
         Resolved None)
      else
        (let code_challenge = calculatePKCECodeChallenge e code_verifier;
             state = generateRandomState e;
             nonce = generateRandomNonce e;
             stored = JSON_stringify e
               \<lparr>ld_st = Some state, ld_cv = Some code_verifier, ld_n = Some nonce,
                ld_h = Some (location_href e)\<rparr>
         in emit [LocalStorageRemoveItem ''hawtio-oidc-login'',
                  LocalStorageSetItem ''hawtio-oidc-login'' stored,
                  Log Info ''Added to local storage'' (PString (Some stored))]
              (case authorization_endpoint as of
                 None \<Rightarrow> ([], Rejected TypeError)
               | Some ep \<Rightarrow>
                   (case URL_new e ep of
                      None \<Rightarrow> ([], Rejected TypeError)
                    | Some authorizationUrl \<Rightarrow>
                        (case URL_new e (location_href e) of
                           None \<Rightarrow> ([], Rejected TypeError)
                         | Some u \<Rightarrow>
                             (let redirect = connect_login_redirect (getBasePath e) (pathname u);
                                  target = authorization_url config code_challenge state nonce
                                             authorizationUrl
                              in ([SessionStorageSetItem ''connect-login-redirect'' redirect,
                                   Log Info ''Redirecting to '' (PUrl target),
                                   LocationAssign target,
                                   Log Debug ''Waiting for redirect'' NoPayload],
                                  Pending)))))))"

subsection \<open>Return from the provider: validation and token exchange\<close>

definition no_exp_message :: string where
  \<open>no_exp_message = ''Access token doesn't contain "exp" information''\<close>

definition decode_at_exp :: "env \<Rightarrow> string \<Rightarrow> event list \<times> int" where
  "decode_at_exp e token =
     (case jwtDecode e token of
        Inl ex \<Rightarrow> ([Log Warn ''Problem determining access token validity'' (PExn ex)], 0)
      | Inr decoded \<Rightarrow>
          (case jwt_exp decoded of
             None \<Rightarrow> ([Log Warn no_exp_message NoPayload], 0)
           | Some x \<Rightarrow>
               if x \<noteq> 0 then ([], x)
               else ([Log Warn no_exp_message NoPayload], 0)))"

definition session_of ::
  "env \<Rightarrow> loginData \<Rightarrow> TokenEndpointResponse \<Rightarrow> event list \<times> UserInfo option promise" where
  "session_of e login tokenResponse =
     emit (fst (decode_at_exp e (tr_access_token tokenResponse)))
       (case getValidatedIdTokenClaims e tokenResponse of
          None \<Rightarrow> ([Log Warn ''No ID token returned'' NoPayload], Resolved None)
        | Some claims \<Rightarrow>
            ([HistoryReplaceState (ld_h login), SetupFetch],
             Resolved (Some
               \<lparr>user = Some (case preferred_username claims of Some name \<Rightarrow> name | None \<Rightarrow> sub claims),
                access_token = Some (tr_access_token tokenResponse),
                refresh_token = tr_refresh_token tokenResponse,
                at_exp = snd (decode_at_exp e (tr_access_token tokenResponse))\<rparr>)))"

definition code_grant ::
  "env \<Rightarrow> OidcConfig \<Rightarrow> AuthorizationServer \<Rightarrow> params option \<Rightarrow> loginData
     \<Rightarrow> event list \<times> UserInfo option promise" where
  "code_grant e config as authResponse login =
     emit [AuthorizationCodeGrantRequest authResponse (redirect_uri config) (ld_cv login)]
       (case authorizationCodeGrantRequest e as (client_of config) authResponse
               (redirect_uri config) (ld_cv login) of
          Inl ex \<Rightarrow>
            ([Log Warn ''Problem accessing OpenID token endpoint'' (PExn ex),
              Log Warn ''No authorization code grant response available'' NoPayload],
             Resolved None)
        | Inr res \<Rightarrow>
            (case processAuthorizationCodeResponse e as (client_of config) res (ld_n login) of
               Inl ex \<Rightarrow>
                 ([Log Warn ''Problem processing OpenID token response'' (PExn ex),
                   Log Error ''OpenID Token error'' (PExn ex)],
                  Resolved None)
             | Inr tokenResponse \<Rightarrow> session_of e login tokenResponse))"

definition token_exchange ::
  "env \<Rightarrow> OidcConfig \<Rightarrow> AuthorizationServer \<Rightarrow> params \<Rightarrow> params option
     \<Rightarrow> event list \<times> UserInfo option promise" where
  "token_exchange e config as urlParams authResponse =
     emit [Log Info ''Getting localStore data, because we have params'' (PParams urlParams)]
       (if \<not> truthy (localStorage_getItem e ''hawtio-oidc-login'') then
          ([Log Warn ''No local data, can't proceed with OpenID authorization grant'' NoPayload],
           Resolved None)
        else
          (case JSON_parse e (case localStorage_getItem e ''hawtio-oidc-login'' of
                                Some loginDataString \<Rightarrow> loginDataString | None \<Rightarrow> []) of
             ParseThrows \<Rightarrow> ([], Rejected SyntaxError)
           | ParsedNull \<Rightarrow> ([], Rejected TypeError)
           | Parsed login \<Rightarrow>
               if \<not> truthy (ld_cv login) \<or> \<not> truthy (ld_st login) then
                 ([Log Warn ''Missing local data, can't proceed with OpenID authorization grant''
                     NoPayload],
                  Resolved None)
               else code_grant e config as authResponse login))"

definition authorization_response ::
  "env \<Rightarrow> OidcConfig \<Rightarrow> AuthorizationServer \<Rightarrow> params \<Rightarrow> event list \<times> UserInfo option promise" where
  "authorization_response e config as urlParams =
     (case validateAuthResponse e as (client_of config) urlParams
             (searchParams_get urlParams ''state'') of
        Inl ex \<Rightarrow>
          if ex = AuthorizationResponseError then
            ([Log Error ''OpenID Authorization error'' (PExn ex)], Resolved None)
          else token_exchange e config as urlParams None
      | Inr authResponse \<Rightarrow> token_exchange e config as urlParams (Some authResponse))"

definition initialize ::
  "env \<Rightarrow> OidcConfig option promise \<Rightarrow> bool promise \<Rightarrow> AuthorizationServer option promise
     \<Rightarrow> event list \<times> UserInfo option promise" where
  "initialize e configP enabledP oidcMetadataP =
     await configP (\<lambda>cfg. await enabledP (\<lambda>enabled. await oidcMetadataP (\<lambda>md.
       case cfg of
         None \<Rightarrow> ([], Resolved None)
       | Some config \<Rightarrow>
           if \<not> enabled then ([], Resolved None)
           else (case md of
                   None \<Rightarrow> ([], Resolved None)
                 | Some as \<Rightarrow>
                     (let urlParams = urlParams_of e config in
                      if oauthError urlParams then
                        ([Log Error ''OpenID Connect error''
                            (POAuth2Error (opt_get urlParams ''error'')
                               (opt_get urlParams ''error_description'')
                               (opt_get urlParams ''error_uri''))],
                         Resolved None)
                      else if \<not> oauthSuccess as urlParams then login_redirect e config as
                      else (case urlParams of
                              None \<Rightarrow> ([], Rejected TypeError)
                            | Some ps \<Rightarrow> authorization_response e config as ps))))))"

section \<open>Token freshness\<close>

text \<open>
  \<^verbatim>\<open>isTokenExpiring(at_exp)\<close>: the first argument is the value of \<^verbatim>\<open>Date.now()\<close>
  (milliseconds since the epoch), which the source reads itself;
  \<^verbatim>\<open>Math.floor(Date.now() / 1000)\<close> is \<open>div\<close> on \<open>int\<close>.
\<close>

definition isTokenExpiring :: "int \<Rightarrow> int \<Rightarrow> bool" where
  "isTokenExpiring ms expiry =
     (let now = ms div 1000
      in if expiry - 5 < now then True else False)"

section \<open>Token refresh\<close>

text \<open>
  The fields of the service object, as the class declares them. The object that
  \<^verbatim>\<open>userInfo\<close> resolves to is shared by \<^verbatim>\<open>updateToken\<close> and by the closure of
  the fetch wrapper; \<^verbatim>\<open>updateToken\<close> assigns to its fields in place, so the one
  \<open>UserInfo\<close> value below is what every holder of the reference sees.
\<close>

record OidcService =
  this_config :: "OidcConfig option promise"
  this_enabled :: "bool promise"
  this_oidcMetadata :: "AuthorizationServer option promise"
  this_userInfo :: "UserInfo option promise"

text \<open>Which of the two callbacks \<^verbatim>\<open>updateToken\<close> invoked, if any.\<close>

datatype callback = NoCallback | SuccessCallback UserInfo | FailureCallback

record update_result =
  upd_trace :: "event list"
  upd_callback :: callback
  upd_promise :: "unit promise"
  upd_service :: OidcService

definition await_upd :: "'a promise \<Rightarrow> OidcService \<Rightarrow> ('a \<Rightarrow> update_result) \<Rightarrow> update_result" where
  "await_upd p s k =
     (case p of
        Resolved v \<Rightarrow> k v
      | Rejected ex \<Rightarrow>
          \<lparr>upd_trace = [], upd_callback = NoCallback, upd_promise = Rejected ex, upd_service = s\<rparr>
      | Pending \<Rightarrow>
          \<lparr>upd_trace = [], upd_callback = NoCallback, upd_promise = Pending, upd_service = s\<rparr>)"

text \<open>A plain \<^verbatim>\<open>return\<close> of \<^verbatim>\<open>updateToken\<close>: nothing called back, nothing changed.\<close>

definition returns :: "event list \<Rightarrow> OidcService \<Rightarrow> update_result" where
  "returns evs s =
     \<lparr>upd_trace = evs, upd_callback = NoCallback, upd_promise = Resolved (), upd_service = s\<rparr>"

text \<open>
  The tail of \<^verbatim>\<open>updateToken\<close> after a refresh response was processed. The two token
  fields are assigned before \<^verbatim>\<open>jwtDecode\<close> runs, and \<^verbatim>\<open>jwtDecode\<close> is not inside
  a \<^verbatim>\<open>try\<close>: if it throws, the function's promise rejects with the assignments made.
\<close>

definition store_refreshed ::
  "env \<Rightarrow> OidcService \<Rightarrow> UserInfo \<Rightarrow> TokenEndpointResponse \<Rightarrow> event list \<Rightarrow> update_result" where
  "store_refreshed e s userInfo refreshResponse evs =
     (let u1 = userInfo\<lparr>access_token := Some (tr_access_token refreshResponse),
                       refresh_token := tr_refresh_token refreshResponse\<rparr>
      in case jwtDecode e (tr_access_token refreshResponse) of
           Inl ex \<Rightarrow>
             \<lparr>upd_trace = evs, upd_callback = NoCallback, upd_promise = Rejected ex,
              upd_service = s\<lparr>this_userInfo := Resolved (Some u1)\<rparr>\<rparr>
         | Inr decoded \<Rightarrow>
             (case jwt_exp decoded of
                None \<Rightarrow>
                  \<lparr>upd_trace = evs @ [Log Warn no_exp_message NoPayload],
                   upd_callback = SuccessCallback (u1\<lparr>at_exp := 0\<rparr>),
                   upd_promise = Resolved (),
                   upd_service = s\<lparr>this_userInfo := Resolved (Some (u1\<lparr>at_exp := 0\<rparr>))\<rparr>\<rparr>
              | Some x \<Rightarrow>
                  if x \<noteq> 0 then
                    \<lparr>upd_trace = evs,
                     upd_callback = SuccessCallback (u1\<lparr>at_exp := x\<rparr>),
                     upd_promise = Resolved (),
                     upd_service = s\<lparr>this_userInfo := Resolved (Some (u1\<lparr>at_exp := x\<rparr>))\<rparr>\<rparr>
                  else
                    \<lparr>upd_trace = evs @ [Log Warn no_exp_message NoPayload],
                     upd_callback = SuccessCallback (u1\<lparr>at_exp := 0\<rparr>),
                     upd_promise = Resolved (),
                     upd_service = s\<lparr>this_userInfo := Resolved (Some (u1\<lparr>at_exp := 0\<rparr>))\<rparr>\<rparr>))"

definition refresh_grant ::
  "env \<Rightarrow> bool \<Rightarrow> OidcService \<Rightarrow> UserInfo \<Rightarrow> OidcConfig \<Rightarrow> AuthorizationServer \<Rightarrow> update_result" where
  "refresh_grant e failure s userInfo config as =
     (case refreshTokenGrantRequest e as (client_of config) (refresh_token userInfo) of
        Inl ex \<Rightarrow>
          \<lparr>upd_trace = [RefreshTokenGrantRequest (refresh_token userInfo),
                        Log Error ''Problem refreshing token'' (PExn ex)],
           upd_callback = (if failure then FailureCallback else NoCallback),
           upd_promise = Resolved (),
           upd_service = s\<rparr>
      | Inr res \<Rightarrow>
          (case processRefreshTokenResponse e as (client_of config) res of
             Inl ex \<Rightarrow>
               returns [RefreshTokenGrantRequest (refresh_token userInfo),
                        Log Error ''Problem processing refresh token response'' (PExn ex)] s
           | Inr refreshResponse \<Rightarrow>
               store_refreshed e s userInfo refreshResponse
                 [RefreshTokenGrantRequest (refresh_token userInfo)]))"

text \<open>
  \<^verbatim>\<open>updateToken(success, failure?)\<close>. The second argument says whether a
  \<^verbatim>\<open>failure\<close> callback was passed.
\<close>

definition updateToken :: "env \<Rightarrow> bool \<Rightarrow> OidcService \<Rightarrow> update_result" where
  "updateToken e failure s =
     await_upd (this_userInfo s) s (\<lambda>ui.
       case ui of
         None \<Rightarrow> returns [] s
       | Some userInfo \<Rightarrow>
           if truthy (refresh_token userInfo) then
             await_upd (this_config s) s (\<lambda>cfg.
               await_upd (this_enabled s) s (\<lambda>enabled.
                 await_upd (this_oidcMetadata s) s (\<lambda>md.
                   case cfg of
                     None \<Rightarrow> returns [] s
                   | Some config \<Rightarrow>
                       if \<not> enabled then returns [] s
                       else (case md of
                               None \<Rightarrow> returns [] s
                             | Some as \<Rightarrow> refresh_grant e failure s userInfo config as))))
           else returns [Log Error ''No refresh token available'' NoPayload] s)"

text \<open>A series of refresh attempts, each in its own environment, on the evolving service.\<close>

fun updateToken_all :: "env list \<Rightarrow> bool \<Rightarrow> OidcService \<Rightarrow> update_result list" where
  "updateToken_all [] failure s = []"
| "updateToken_all (e # es) failure s =
     updateToken e failure s # updateToken_all es failure (upd_service (updateToken e failure s))"

section \<open>The fetch wrapper\<close>

text \<open>
  The object spread \<^verbatim>\<open>{...init.headers}\<close> copies the own enumerable properties of its
  operand: those of a plain object; none of a \<^verbatim>\<open>Headers\<close> instance, whose entries are
  not properties; and for an array its elements under their indices.
\<close>

text \<open>The property key of an array index: its decimal digits.\<close>

fun index_key :: "nat \<Rightarrow> string" where
  "index_key i =
     (if 10 \<le> i then index_key (i div 10) @ [char_of (i mod 10 + 48)]
      else [char_of (i + 48)])"

declare index_key.simps [simp del]

fun spread_headers :: "headers_init \<Rightarrow> (string \<rightharpoonup> header_value)" where
  "spread_headers HeadersUndefined = Map.empty"
| "spread_headers (HeadersRecord m) = (\<lambda>name. map_option HeaderString (m name))"
| "spread_headers (HeadersInstance hs) = Map.empty"
| "spread_headers (HeadersArray ps) =
     map_of (zip (map index_key [0..<length ps]) (map (\<lambda>p. HeaderEntry (fst p) (snd p)) ps))"

text \<open>
  The function that \<^verbatim>\<open>setupFetch\<close> installs as \<^verbatim>\<open>window.fetch\<close>. Its closure
  variable \<^verbatim>\<open>userInfo\<close> is the fourth argument. The promise of the refresh branch is
  settled only from inside the two callbacks handed to \<^verbatim>\<open>updateToken\<close>; the promise
  that \<^verbatim>\<open>updateToken\<close> itself returns is dropped. In the success callback the request
  is sent again with \<^verbatim>\<open>fetch(input, init)\<close>, which is this same function: the request
  is intercepted once more, with the refreshed credentials in the closure variable, and
  the outer promise takes the outcome of that inner call. A refreshed token that is
  itself expiring starts a further refresh, so the number of rounds is not bounded; the
  first argument bounds the interceptions followed, and \<open>None\<close> says that the bound was
  reached. All rounds of one call read the same environment.
\<close>

fun window_fetch ::
  "nat \<Rightarrow> env \<Rightarrow> OidcService \<Rightarrow> UserInfo option \<Rightarrow> request
     \<Rightarrow> (event list \<times> http_response promise \<times> OidcService) option" where
  "window_fetch 0 e s closure req = None"
| "window_fetch (Suc fuel) e s closure req =
     (case closure of
        None \<Rightarrow>
          Some ([Log Debug ''Fetch - Fetch intercepted for OIDC authentication'' NoPayload],
                Rejected TypeError, s)
      | Some userInfo \<Rightarrow>
          if \<not> truthy (access_token userInfo) \<or> isTokenExpiring (Date_now e) (at_exp userInfo) then
            (case upd_callback (updateToken e True s) of
               SuccessCallback u \<Rightarrow>
                 (case window_fetch fuel e (upd_service (updateToken e True s)) (Some u) req of
                    None \<Rightarrow> None
                  | Some resent \<Rightarrow>
                      Some ([Log Debug ''Fetch - Fetch intercepted for OIDC authentication'' NoPayload,
                             Log Debug ''Fetch - Try to update token for request:''
                               (PString (Some (req_input req)))]
                            @ upd_trace (updateToken e True s)
                            @ [Log Debug ''Fetch - OIDC token refreshed. Set new value to userService''
                                 NoPayload,
                               UserServiceSetToken (access_token u),
                               Log Debug
                                 ''Fetch - Re-sending request after successfully updating OIDC token:''
                                 (PString (Some (req_input req)))]
                            @ fst resent,
                            fst (snd resent), snd (snd resent)))
             | FailureCallback \<Rightarrow>
                 Some ([Log Debug ''Fetch - Fetch intercepted for OIDC authentication'' NoPayload,
                        Log Debug ''Fetch - Try to update token for request:''
                          (PString (Some (req_input req)))]
                       @ upd_trace (updateToken e True s)
                       @ [Log Debug ''Fetch - Logging out due to token update failed'' NoPayload,
                          UserServiceLogout],
                       Rejected NoReason, upd_service (updateToken e True s))
             | NoCallback \<Rightarrow>
                 Some ([Log Debug ''Fetch - Fetch intercepted for OIDC authentication'' NoPayload,
                        Log Debug ''Fetch - Try to update token for request:''
                          (PString (Some (req_input req)))]
                       @ upd_trace (updateToken e True s),
                       Pending, upd_service (updateToken e True s)))
          else
            (let headers = (spread_headers (req_headers req))
                   (''Authorization'' \<mapsto>
                      HeaderString (''Bearer '' @ (case access_token userInfo of
                                                     Some t \<Rightarrow> t | None \<Rightarrow> [])))
             in if truthy (getCookie e ''XSRF-TOKEN'') then
                  Some ([Log Debug ''Fetch - Fetch intercepted for OIDC authentication'' NoPayload,
                         Log Debug ''Fetch - Set XSRF token header from cookies'' NoPayload],
                        originalFetch e
                          \<lparr>sent_input = req_input req,
                           sent_headers =
                             headers(''X-XSRF-TOKEN'' \<mapsto>
                               HeaderString (case getCookie e ''XSRF-TOKEN'' of
                                               Some t \<Rightarrow> t | None \<Rightarrow> []))\<rparr>,
                        s)
                else
                  Some ([Log Debug ''Fetch - Fetch intercepted for OIDC authentication'' NoPayload],
                        originalFetch e \<lparr>sent_input = req_input req, sent_headers = headers\<rparr>,
                        s)))"

section \<open>The constructor\<close>

text \<open>
  The constructor starts the four promises in this order; \<^verbatim>\<open>fetchOidcMetadata\<close>
  logs before \<^verbatim>\<open>initialize\<close> can, because \<^verbatim>\<open>initialize\<close> awaits its result.
\<close>

definition OidcService_new ::
  "env \<Rightarrow> (string \<Rightarrow> OidcConfig parsed) \<Rightarrow> fetch_result \<Rightarrow> event list \<times> OidcService" where
  "OidcService_new e parse r =
     (let config = load_config parse r;
          enabled = isOidcEnabled config;
          md = fetchOidcMetadata e enabled config;
          ui = initialize e config enabled (snd md)
      in (fst md @ fst ui,
          \<lparr>this_config = config, this_enabled = enabled,
           this_oidcMetadata = snd md, this_userInfo = snd ui\<rparr>))"

section \<open>Observations on a trace\<close>

fun is_token_request :: "event \<Rightarrow> bool" where
  "is_token_request (AuthorizationCodeGrantRequest ar uri cv) = True"
| "is_token_request (RefreshTokenGrantRequest rt) = True"
| "is_token_request ev = False"

definition token_requests :: "event list \<Rightarrow> event list" where
  "token_requests evs = filter is_token_request evs"

fun redirect_targets :: "event list \<Rightarrow> url list" where
  "redirect_targets [] = []"
| "redirect_targets (LocationAssign u # evs) = u # redirect_targets evs"
| "redirect_targets (ev # evs) = redirect_targets evs"

text \<open>
  The parameter set that the property about the authorization request names:
  the seven fixed parameters, and the two PKCE parameters when a challenge method is
  configured.
\<close>

definition named_query_params :: "OidcConfig \<Rightarrow> string \<Rightarrow> string \<Rightarrow> string \<Rightarrow> (string \<times> string) set" where
  "named_query_params config code_challenge state nonce =
     {(''response_type'', ''code''),
      (''response_mode'', response_mode config),
      (''client_id'', client_id config),
      (''redirect_uri'', redirect_uri config),
      (''scope'', scope config),
      (''state'', state),
      (''nonce'', nonce)}
     \<union> (case code_challenge_method config of
          None \<Rightarrow> {}
        | Some m \<Rightarrow>
            if m \<noteq> [] then {(''code_challenge_method'', m), (''code_challenge'', code_challenge)}
            else {})"

section \<open>Scenarios\<close>

text \<open>
  Concrete configurations and environments on which the theorems below are exercised.
  The tables for \<open>URLSearchParams_new\<close>, \<open>URL_new\<close> and \<open>JSON_parse\<close> give the
  platform's result on the few strings that occur.
\<close>

definition as0 :: AuthorizationServer where
  "as0 = \<lparr>issuer = ''https://idp.example'',
          authorization_endpoint = Some ''https://idp.example/authorize'',
          end_session_endpoint = None,
          authorization_response_iss_parameter_supported = None\<rparr>"

definition config0 :: OidcConfig where
  "config0 = \<lparr>auth_method = Some ''oidc'', provider = Some ''https://idp.example'',
              client_id = ''abc'', response_mode = ''query'', scope = ''openid profile'',
              redirect_uri = ''https://app.example/cb'', code_challenge_method = Some ''S256'',
              prompt = None, openid_configuration = None\<rparr>"

definition login0 :: loginData where
  "login0 = \<lparr>ld_st = Some ''s1'', ld_cv = Some ''v1'', ld_n = Some ''n1'',
             ld_h = Some ''https://app.example/hawtio/jmx''\<rparr>"

definition params_table :: "string \<Rightarrow> params" where
  "params_table q =
     (if q = ''code=c1&state=s1'' then [(''code'', ''c1''), (''state'', ''s1'')]
      else if q = ''code=c1&state=s1&iss=https%3A%2F%2Fother.example'' then
        [(''code'', ''c1''), (''state'', ''s1''), (''iss'', ''https://other.example'')]
      else if q = ''error=access_denied&error_description=denied'' then
        [(''error'', ''access_denied''), (''error_description'', ''denied'')]
      else [])"

definition url_table :: "string \<Rightarrow> url option" where
  "url_table t =
     (if t = ''https://idp.example/authorize'' then
        Some \<lparr>url_base = ''https://idp.example'', pathname = ''/authorize'',
              searchParams = [], url_hash = []\<rparr>
      else if t = ''https://idp.example/authorize?p=signin'' then
        Some \<lparr>url_base = ''https://idp.example'', pathname = ''/authorize'',
              searchParams = [(''p'', ''signin'')], url_hash = []\<rparr>
      else if t = ''https://app.example/hawtio/jmx'' then
        Some \<lparr>url_base = ''https://app.example'', pathname = ''/hawtio/jmx'',
              searchParams = [], url_hash = []\<rparr>
      else None)"

definition login0_json :: string where
  \<open>login0_json = ''{"st":"s1","cv":"v1","n":"n1","h":"https://app.example/hawtio/jmx"}''\<close>

definition nonce_only_json :: string where
  \<open>nonce_only_json = ''{"n":"n1"}''\<close>

definition json_table :: "string \<Rightarrow> loginData parsed" where
  "json_table t =
     (if t = login0_json then Parsed login0
      else if t = nonce_only_json then
        Parsed \<lparr>ld_st = None, ld_cv = None, ld_n = Some ''n1'', ld_h = None\<rparr>
      else if t = ''null'' then ParsedNull
      else ParseThrows)"

definition tokens0 :: TokenEndpointResponse where
  "tokens0 = \<lparr>tr_access_token = ''T1'', tr_refresh_token = Some ''R1''\<rparr>"

definition env0 :: env where
  "env0 =
     \<lparr>location_hash = [], location_search = [],
      location_href = ''https://app.example/hawtio/jmx'',
      isSecureContext = True,
      localStorage_getItem = (\<lambda>k. None),
      getBasePath = Some ''/hawtio'',
      getCookie = (\<lambda>k. None),
      Date_now = 1000000,
      URLSearchParams_new = params_table,
      URL_new = url_table,
      JSON_parse = json_table,
      JSON_stringify = (\<lambda>d. login0_json),
      generateRandomCodeVerifier = ''v1'',
      generateRandomState = ''s1'',
      generateRandomNonce = ''n1'',
      calculatePKCECodeChallenge = (\<lambda>v. ''ch1''),
      discoveryRequest = (\<lambda>u. Inl (OtherError ''offline'')),
      processDiscoveryResponse = (\<lambda>u r. Inr as0),
      validateAuthResponse = (\<lambda>a c ps st. Inr ps),
      authorizationCodeGrantRequest =
        (\<lambda>a c ar uri cv. case ar of None \<Rightarrow> Inl TypeError
                          | Some validated \<Rightarrow> Inr (HttpResponse 200 ''tokens'')),
      processAuthorizationCodeResponse = (\<lambda>a c r n. Inr tokens0),
      refreshTokenGrantRequest = (\<lambda>a c rt. Inr (HttpResponse 200 ''tokens'')),
      processRefreshTokenResponse = (\<lambda>a c r. Inr tokens0),
      jwtDecode = (\<lambda>t. if t = ''T1'' then Inr \<lparr>jwt_exp = Some 4600\<rparr> else Inl InvalidTokenError),
      getValidatedIdTokenClaims = (\<lambda>t. Some \<lparr>preferred_username = Some ''alice'', sub = ''u1''\<rparr>),
      originalFetch = (\<lambda>r. Resolved (HttpResponse 200 ''ok''))\<rparr>"

text \<open>The page was reached by a redirect that carries \<^verbatim>\<open>code\<close> and \<^verbatim>\<open>state\<close>.\<close>

definition env_back :: env where
  "env_back = env0\<lparr>location_search := ''?code=c1&state=s1''\<rparr>"

definition stored_login :: "string \<Rightarrow> string \<Rightarrow> string option" where
  "stored_login t k = (if k = ''hawtio-oidc-login'' then Some t else None)"

text \<open>The same, with the pending login state of the first visit still in storage.\<close>

definition env_login :: env where
  "env_login = env_back\<lparr>localStorage_getItem := stored_login login0_json\<rparr>"

text \<open>The same, with a stored object that has lost its verifier and state.\<close>

definition env_partial :: env where
  "env_partial = env_back\<lparr>localStorage_getItem := stored_login nonce_only_json\<rparr>"

text \<open>The provider answered with an error.\<close>

definition env_error :: env where
  "env_error = env0\<lparr>location_search := ''?error=access_denied&error_description=denied''\<rparr>"

text \<open>
  A provider that announces the \<^verbatim>\<open>iss\<close> response parameter, and a response whose
  \<^verbatim>\<open>iss\<close> names another issuer: validation throws an error of another class. The
  stored login state is a truncated text.
\<close>

definition as_iss :: AuthorizationServer where
  "as_iss = as0\<lparr>authorization_response_iss_parameter_supported := Some True\<rparr>"

definition env_mixup :: env where
  "env_mixup =
     env0\<lparr>location_search := ''?code=c1&state=s1&iss=https%3A%2F%2Fother.example'',
          validateAuthResponse := (\<lambda>a c ps st. Inl OperationProcessingError),
          localStorage_getItem := stored_login ''{''\<rparr>"

text \<open>A provider whose authorization endpoint has a query component of its own.\<close>

definition as_query :: AuthorizationServer where
  "as_query = as0\<lparr>authorization_endpoint := Some ''https://idp.example/authorize?p=signin''\<rparr>"

text \<open>The same response, with the pending login state of the first visit intact.\<close>

definition env_mixup_login :: env where
  "env_mixup_login = env_mixup\<lparr>localStorage_getItem := stored_login login0_json\<rparr>"

definition config0_json :: string where
  \<open>config0_json = ''{"method":"oidc","provider":"https://idp.example","client_id":"abc","response_mode":"query","scope":"openid profile","redirect_uri":"https://app.example/cb","code_challenge_method":"S256"}''\<close>

definition config_table :: "string \<Rightarrow> OidcConfig parsed" where
  "config_table t =
     (if t = config0_json then Parsed config0
      else if t = ''null'' then ParsedNull
      else ParseThrows)"

definition session0 :: UserInfo where
  "session0 = \<lparr>user = Some ''alice'', access_token = Some ''T0'',
               refresh_token = Some ''R0'', at_exp = 900\<rparr>"

definition service0 :: OidcService where
  "service0 = \<lparr>this_config = Resolved (Some config0), this_enabled = Resolved True,
               this_oidcMetadata = Resolved (Some as0), this_userInfo = Resolved (Some session0)\<rparr>"

text \<open>The session lost its refresh token.\<close>

definition session_no_rt :: UserInfo where
  "session_no_rt = session0\<lparr>refresh_token := None\<rparr>"

definition service_no_rt :: OidcService where
  "service_no_rt = service0\<lparr>this_userInfo := Resolved (Some session_no_rt)\<rparr>"

text \<open>The token endpoint cannot be reached.\<close>

definition env_offline :: env where
  "env_offline = env0\<lparr>refreshTokenGrantRequest := (\<lambda>a c rt. Inl (OtherError ''offline''))\<rparr>"

text \<open>
  The token endpoint answers the refresh request with status 400 (the refresh token has
  expired), and processing that response rejects.
\<close>

definition env_refused :: env where
  "env_refused =
     env0\<lparr>refreshTokenGrantRequest := (\<lambda>a c rt. Inr (HttpResponse 400 ''invalid_grant'')),
          processRefreshTokenResponse := (\<lambda>a c r. Inl (OtherError ''invalid_grant''))\<rparr>"

text \<open>The refresh response has a new access token and no refresh token.\<close>

definition env_no_rotation :: env where
  "env_no_rotation =
     env0\<lparr>processRefreshTokenResponse :=
            (\<lambda>a c r. Inr \<lparr>tr_access_token = ''T1'', tr_refresh_token = None\<rparr>)\<rparr>"

text \<open>The refreshed access token is an opaque string, not a JWT.\<close>

definition env_opaque :: env where
  "env_opaque =
     env0\<lparr>processRefreshTokenResponse :=
            (\<lambda>a c r. Inr \<lparr>tr_access_token = ''opaque'', tr_refresh_token = Some ''R1''\<rparr>)\<rparr>"

definition request0 :: request where
  "request0 = \<lparr>req_input = ''/hawtio/jolokia'',
                req_headers = HeadersInstance [(''Accept'', ''application/json'')]\<rparr>"

section \<open>Auxiliary facts\<close>

lemma await_Resolved: "await (Resolved v) k = k v"
  by (simp add: await_def)

lemma token_requests_emit:
  "token_requests (fst (emit evs r)) = token_requests evs @ token_requests (fst r)"
  by (simp add: emit_def token_requests_def)

lemma snd_emit: "snd (emit evs r) = snd r"
  by (simp add: emit_def)

text \<open>The body of \<^verbatim>\<open>initialize\<close> once the three promises have resolved to usable values.\<close>

lemma initialize_enabled:
  "initialize e (Resolved (Some config)) (Resolved True) (Resolved (Some as)) =
     (if oauthError (urlParams_of e config) then
        ([Log Error ''OpenID Connect error''
            (POAuth2Error (opt_get (urlParams_of e config) ''error'')
               (opt_get (urlParams_of e config) ''error_description'')
               (opt_get (urlParams_of e config) ''error_uri''))],
         Resolved None)
      else if \<not> oauthSuccess as (urlParams_of e config) then login_redirect e config as
      else (case urlParams_of e config of
              None \<Rightarrow> ([], Rejected TypeError)
            | Some ps \<Rightarrow> authorization_response e config as ps))"
  by (simp add: initialize_def await_Resolved Let_def)

lemma oauthError_iff: "oauthError (Some ps) = (searchParams_get ps ''error'' \<noteq> None)"
  by (simp add: oauthError_def errorParamsRequired_def)

lemma token_exchange_no_item:
  assumes "localStorage_getItem e ''hawtio-oidc-login'' = None"
  shows "token_exchange e config as ps ar =
           ([Log Info ''Getting localStore data, because we have params'' (PParams ps),
             Log Warn ''No local data, can't proceed with OpenID authorization grant'' NoPayload],
            Resolved None)"
  using assms by (simp add: token_exchange_def truthy_def emit_def)

lemma token_exchange_parsed:
  assumes "localStorage_getItem e ''hawtio-oidc-login'' = Some str"
    and "str \<noteq> []" and "JSON_parse e str = Parsed login"
  shows "token_exchange e config as ps ar =
           emit [Log Info ''Getting localStore data, because we have params'' (PParams ps)]
             (if \<not> truthy (ld_cv login) \<or> \<not> truthy (ld_st login) then
                ([Log Warn ''Missing local data, can't proceed with OpenID authorization grant''
                    NoPayload],
                 Resolved None)
              else code_grant e config as ar login)"
  using assms by (simp add: token_exchange_def truthy_def)

lemma token_exchange_unusable:
  assumes "localStorage_getItem e ''hawtio-oidc-login'' = None
           \<or> (\<exists>str login. localStorage_getItem e ''hawtio-oidc-login'' = Some str
                 \<and> JSON_parse e str = Parsed login
                 \<and> (\<not> truthy (ld_cv login) \<or> \<not> truthy (ld_st login)))"
  shows "snd (token_exchange e config as ps ar) = Resolved None
         \<and> token_requests (fst (token_exchange e config as ps ar)) = []"
proof -
  consider (none) "localStorage_getItem e ''hawtio-oidc-login'' = None"
    | (empty) "localStorage_getItem e ''hawtio-oidc-login'' = Some []"
    | (some) str login where "localStorage_getItem e ''hawtio-oidc-login'' = Some str"
        "str \<noteq> []" "JSON_parse e str = Parsed login"
        "\<not> truthy (ld_cv login) \<or> \<not> truthy (ld_st login)"
    using assms by (cases "localStorage_getItem e ''hawtio-oidc-login''") auto
  then show ?thesis
  proof cases
    case none
    then show ?thesis by (simp add: token_exchange_no_item token_requests_def)
  next
    case empty
    then show ?thesis by (simp add: token_exchange_def truthy_def emit_def token_requests_def)
  next
    case some
    then show ?thesis
      by (auto simp add: token_exchange_parsed emit_def token_requests_def)
  qed
qed

lemma session_of_no_request: "token_requests (fst (session_of e login t)) = []"
  by (simp add: session_of_def decode_at_exp_def emit_def token_requests_def
      split: sum.splits option.splits)

lemma code_grant_requests:
  "token_requests (fst (code_grant e config as ar login)) =
     [AuthorizationCodeGrantRequest ar (redirect_uri config) (ld_cv login)]"
  by (simp add: code_grant_def token_requests_emit session_of_no_request split: sum.splits)
     (simp add: token_requests_def)

lemma authorization_response_unusable:
  assumes "localStorage_getItem e ''hawtio-oidc-login'' = None
           \<or> (\<exists>str login. localStorage_getItem e ''hawtio-oidc-login'' = Some str
                 \<and> JSON_parse e str = Parsed login
                 \<and> (\<not> truthy (ld_cv login) \<or> \<not> truthy (ld_st login)))"
  shows "snd (authorization_response e config as ps) = Resolved None
         \<and> token_requests (fst (authorization_response e config as ps)) = []"
  using token_exchange_unusable [OF assms]
  by (simp add: authorization_response_def token_requests_def split: sum.splits)

lemma urlParams_env_error:
  "urlParams_of env_error config0
     = Some [(''error'', ''access_denied''), (''error_description'', ''denied'')]"
  by (simp add: urlParams_of_def env_error_def env0_def config0_def params_table_def)

lemma urlParams_env_back:
  "urlParams_of env_back config0 = Some [(''code'', ''c1''), (''state'', ''s1'')]"
  by (simp add: urlParams_of_def env_back_def env0_def config0_def params_table_def)

lemma urlParams_env_login:
  "urlParams_of env_login config0 = Some [(''code'', ''c1''), (''state'', ''s1'')]"
  by (simp add: urlParams_of_def env_login_def env_back_def env0_def config0_def params_table_def)

lemma urlParams_env_partial:
  "urlParams_of env_partial config0 = Some [(''code'', ''c1''), (''state'', ''s1'')]"
  by (simp add: urlParams_of_def env_partial_def env_back_def env0_def config0_def params_table_def)

lemma urlParams_env_mixup_login:
  "urlParams_of env_mixup_login config0
     = Some [(''code'', ''c1''), (''state'', ''s1''), (''iss'', ''https://other.example'')]"
  by (simp add: urlParams_of_def env_mixup_login_def env_mixup_def env0_def config0_def
      params_table_def)

lemma urlParams_env_mixup:
  "urlParams_of env_mixup config0
     = Some [(''code'', ''c1''), (''state'', ''s1''), (''iss'', ''https://other.example'')]"
  by (simp add: urlParams_of_def env_mixup_def env0_def config0_def params_table_def)

lemma oauthSuccess_code_state:
  "oauthSuccess as0 (Some [(''code'', ''c1''), (''state'', ''s1'')])"
  by (simp add: oauthSuccess_def goodParamsRequired_def as0_def searchParams_get_def)

lemma json_table_login0: "json_table login0_json = Parsed login0"
  by (simp add: json_table_def)

lemma login0_json_nonempty: "login0_json \<noteq> []"
  by (simp add: login0_json_def)

lemma config_table_config0: "config_table config0_json = Parsed config0"
  by (simp add: config_table_def)

lemma config_table_brace: "config_table ''{'' = ParseThrows"
  by (simp add: config_table_def config0_json_def)

lemma set_searchParams_set:
  "set (searchParams_set name v ps) = {p \<in> set ps. fst p \<noteq> name} \<union> {(name, v)}"
  by (induction ps) (auto split: if_splits)

lemma searchParams_url_set:
  "set (searchParams (url_set name v u)) = {p \<in> set (searchParams u). fst p \<noteq> name} \<union> {(name, v)}"
  by (simp add: url_set_def set_searchParams_set)

lemma fold_url_set_params:
  "distinct (map fst kvs) \<Longrightarrow>
     set (searchParams (fold (\<lambda>kv. url_set (fst kv) (snd kv)) kvs u)) =
       {p \<in> set (searchParams u). fst p \<notin> fst ` set kvs} \<union> set kvs"
proof (induction kvs arbitrary: u)
  case Nil
  show ?case by simp
next
  case (Cons kv kvs)
  have d: "distinct (map fst kvs)"
    using Cons.prems by simp
  have fresh: "fst p \<noteq> fst kv" if "p \<in> set kvs" for p
    using Cons.prems that by (force simp add: image_iff)
  have "set (searchParams (fold (\<lambda>kv. url_set (fst kv) (snd kv)) (kv # kvs) u)) =
          {p \<in> set (searchParams (url_set (fst kv) (snd kv) u)). fst p \<notin> fst ` set kvs} \<union> set kvs"
    using Cons.IH [OF d] by simp
  also have "\<dots> = {p \<in> set (searchParams u). fst p \<notin> fst ` set (kv # kvs)} \<union> set (kv # kvs)"
    using fresh by (cases kv) (auto simp add: searchParams_url_set, blast)
  finally show ?case .
qed

lemma authorization_url_fold:
  "authorization_url config code_challenge state nonce authorizationUrl =
     fold (\<lambda>kv. url_set (fst kv) (snd kv))
       (authorization_params config code_challenge state nonce) authorizationUrl"
  by (simp add: authorization_url_def authorization_params_def Let_def split: option.splits)

lemma distinct_authorization_params:
  "distinct (map fst (authorization_params config code_challenge state nonce))"
proof (cases "code_challenge_method config")
  case None
  then show ?thesis by (simp add: authorization_params_def)
next
  case (Some m)
  then show ?thesis by (cases "m = []") (simp_all add: authorization_params_def)
qed

lemma set_authorization_params:
  "set (authorization_params config code_challenge state nonce)
     = named_query_params config code_challenge state nonce"
proof (cases "code_challenge_method config")
  case None
  then show ?thesis by (auto simp add: authorization_params_def named_query_params_def)
next
  case (Some m)
  then show ?thesis
    by (cases "m = []") (auto simp add: authorization_params_def named_query_params_def)
qed

lemma authorization_url_params:
  "set (searchParams (authorization_url config code_challenge state nonce authorizationUrl)) =
     {p \<in> set (searchParams authorizationUrl).
        fst p \<notin> fst ` named_query_params config code_challenge state nonce}
     \<union> named_query_params config code_challenge state nonce"
  unfolding authorization_url_fold
  by (simp only: fold_url_set_params [OF distinct_authorization_params] set_authorization_params)

lemma login_redirect_targets:
  assumes "isSecureContext e" and "authorization_endpoint as = Some ep"
    and "URL_new e ep = Some authorizationUrl" and "URL_new e (location_href e) = Some u"
  shows "snd (login_redirect e config as) = Pending"
    and "redirect_targets (fst (login_redirect e config as)) =
           [authorization_url config (calculatePKCECodeChallenge e (generateRandomCodeVerifier e))
              (generateRandomState e) (generateRandomNonce e) authorizationUrl]"
  using assms by (simp_all add: login_redirect_def Let_def emit_def)

lemma urlParams_env0: "urlParams_of env0 config0 = None"
  by (simp add: urlParams_of_def env0_def config0_def)

lemma updateToken_no_refresh_token:
  assumes "this_userInfo s = Resolved (Some u)" and "\<not> truthy (refresh_token u)"
  shows "updateToken e failure s = returns [Log Error ''No refresh token available'' NoPayload] s"
  using assms by (simp add: updateToken_def await_upd_def)

lemma updateToken_ready:
  assumes "this_userInfo s = Resolved (Some u)" and "truthy (refresh_token u)"
    and "this_config s = Resolved (Some config)" and "this_enabled s = Resolved True"
    and "this_oidcMetadata s = Resolved (Some as)"
  shows "updateToken e failure s = refresh_grant e failure s u config as"
  using assms by (simp add: updateToken_def await_upd_def)

lemma updateToken_all_no_refresh_token:
  assumes "this_userInfo s = Resolved (Some u)" and "\<not> truthy (refresh_token u)"
  shows "updateToken_all es failure s
           = replicate (length es) (returns [Log Error ''No refresh token available'' NoPayload] s)"
proof (induction es)
  case Nil
  show ?case by simp
next
  case (Cons e es)
  have "updateToken e failure s = returns [Log Error ''No refresh token available'' NoPayload] s"
    by (rule updateToken_no_refresh_token [OF assms])
  moreover have "upd_service (returns [Log Error ''No refresh token available'' NoPayload] s) = s"
    by (simp add: returns_def)
  ultimately show ?case using Cons.IH by simp
qed

lemma service0_fields:
  "this_userInfo service0 = Resolved (Some session0)"
  "this_config service0 = Resolved (Some config0)"
  "this_enabled service0 = Resolved True"
  "this_oidcMetadata service0 = Resolved (Some as0)"
  "truthy (refresh_token session0)"
  "refresh_token session0 = Some ''R0''"
  by (simp_all add: service0_def session0_def truthy_def)

lemma store_refreshed_decoded:
  assumes "jwtDecode e (tr_access_token rr) = Inr decoded"
  shows "upd_callback (store_refreshed e s u rr evs) =
           SuccessCallback (u\<lparr>access_token := Some (tr_access_token rr),
                              refresh_token := tr_refresh_token rr,
                              at_exp := (case jwt_exp decoded of None \<Rightarrow> 0 | Some x \<Rightarrow> x)\<rparr>)"
    and "upd_service (store_refreshed e s u rr evs) =
           s\<lparr>this_userInfo := Resolved (Some (u\<lparr>access_token := Some (tr_access_token rr),
                              refresh_token := tr_refresh_token rr,
                              at_exp := (case jwt_exp decoded of None \<Rightarrow> 0 | Some x \<Rightarrow> x)\<rparr>))\<rparr>"
    and "upd_promise (store_refreshed e s u rr evs) = Resolved ()"
  using assms by (cases "jwt_exp decoded"; simp add: store_refreshed_def Let_def)+

lemma env_no_rotation_calls:
  "refreshTokenGrantRequest env_no_rotation as0 (client_of config0) (refresh_token session0)
     = Inr (HttpResponse 200 ''tokens'')"
  "processRefreshTokenResponse env_no_rotation as0 (client_of config0) (HttpResponse 200 ''tokens'')
     = Inr \<lparr>tr_access_token = ''T1'', tr_refresh_token = None\<rparr>"
  "jwtDecode env_no_rotation ''T1'' = Inr \<lparr>jwt_exp = Some 4600\<rparr>"
  by (simp_all add: env_no_rotation_def env0_def)

lemma env_opaque_calls:
  "refreshTokenGrantRequest env_opaque as0 (client_of config0) (refresh_token session0)
     = Inr (HttpResponse 200 ''tokens'')"
  "processRefreshTokenResponse env_opaque as0 (client_of config0) (HttpResponse 200 ''tokens'')
     = Inr \<lparr>tr_access_token = ''opaque'', tr_refresh_token = Some ''R1''\<rparr>"
  "jwtDecode env_opaque ''opaque'' = Inl InvalidTokenError"
  by (simp_all add: env_opaque_def env0_def)

text \<open>
  A request that finds the token expiring, with a provider that answers the refresh: the
  token is refreshed, the request is intercepted a second time and goes out through the
  original \<^verbatim>\<open>fetch\<close>.
\<close>

lemma window_fetch_refresh_then_send:
  "map_option (\<lambda>r. (fst r, fst (snd r), this_userInfo (snd (snd r))))
     (window_fetch 2 env0 service0 (Some session0) request0) =
   Some ([Log Debug ''Fetch - Fetch intercepted for OIDC authentication'' NoPayload,
          Log Debug ''Fetch - Try to update token for request:'' (PString (Some ''/hawtio/jolokia'')),
          RefreshTokenGrantRequest (Some ''R0''),
          Log Debug ''Fetch - OIDC token refreshed. Set new value to userService'' NoPayload,
          UserServiceSetToken (Some ''T1''),
          Log Debug ''Fetch - Re-sending request after successfully updating OIDC token:''
            (PString (Some ''/hawtio/jolokia'')),
          Log Debug ''Fetch - Fetch intercepted for OIDC authentication'' NoPayload],
         Resolved (HttpResponse 200 ''ok''),
         Resolved (Some \<lparr>user = Some ''alice'', access_token = Some ''T1'',
                          refresh_token = Some ''R1'', at_exp = 4600\<rparr>))"
proof -
  have r: "updateToken env0 True service0 =
      \<lparr>upd_trace = [RefreshTokenGrantRequest (Some ''R0'')],
       upd_callback = SuccessCallback \<lparr>user = Some ''alice'', access_token = Some ''T1'',
                          refresh_token = Some ''R1'', at_exp = 4600\<rparr>,
       upd_promise = Resolved (),
       upd_service = service0\<lparr>this_userInfo := Resolved (Some \<lparr>user = Some ''alice'',
                          access_token = Some ''T1'', refresh_token = Some ''R1'', at_exp = 4600\<rparr>)\<rparr>\<rparr>"
    by (simp add: updateToken_ready [OF service0_fields(1) service0_fields(5) service0_fields(2-4)]
        refresh_grant_def store_refreshed_def env0_def tokens0_def session0_def)
  have x: "isTokenExpiring 1000000 (at_exp session0)"
    "\<not> isTokenExpiring 1000000 4600" "Date_now env0 = 1000000"
    "getCookie env0 ''XSRF-TOKEN'' = None" "originalFetch env0 = (\<lambda>r. Resolved (HttpResponse 200 ''ok''))"
    by (simp_all add: isTokenExpiring_def env0_def session0_def)
  show ?thesis
    by (simp add: numeral_2_eq_2 r x truthy_def request0_def)
qed

section \<open>Properties\<close>

text \<open>
  C1 (as stated): \<^verbatim>\<open>isTokenExpiring(at_exp)\<close> is true exactly when \<open>at_exp - 5 \<le> now\<close>.
  This fails on the boundary: with \<open>now = 1000\<close> and \<open>at_exp = 1005\<close> the source's
  strict comparison \<open>at_exp - 5 < now\<close> is false.
\<close>

theorem isTokenExpiring_boundary_counterexample:
  "\<not> (isTokenExpiring 1000000 1005 = (1005 - 5 \<le> (1000000 :: int) div 1000))"
  by (simp add: isTokenExpiring_def)

text \<open>
  C1 (amended): \<^verbatim>\<open>isTokenExpiring(at_exp)\<close> is true exactly when \<open>at_exp - 5 < now\<close>,
  where \<open>now\<close> is the current time in whole seconds; it is true for \<open>at_exp = now + 4\<close>
  and false for \<open>at_exp = now + 5\<close> and \<open>at_exp = now + 6\<close>.
\<close>

theorem isTokenExpiring_strict:
  "isTokenExpiring ms expiry = (expiry - 5 < ms div 1000)
   \<and> isTokenExpiring ms (ms div 1000 + 4)
   \<and> \<not> isTokenExpiring ms (ms div 1000 + 5)
   \<and> \<not> isTokenExpiring ms (ms div 1000 + 6)"
  by (simp add: isTokenExpiring_def)

text \<open>
  C6: when the URL the page was reached by carries an \<^verbatim>\<open>error\<close> parameter in the
  configured response mode (\<open>urlParams_of\<close> reads the query or the fragment accordingly),
  \<^verbatim>\<open>initialize\<close> logs the \<^verbatim>\<open>error\<close>, \<^verbatim>\<open>error_description\<close> and
  \<^verbatim>\<open>error_uri\<close> values of the URL, does nothing else, and resolves to no session;
  in particular it calls no token endpoint function.
\<close>

theorem error_response_resolves_absent:
  assumes "urlParams_of e config = Some ps" and "searchParams_get ps ''error'' \<noteq> None"
  shows "initialize e (Resolved (Some config)) (Resolved True) (Resolved (Some as)) =
           ([Log Error ''OpenID Connect error''
               (POAuth2Error (searchParams_get ps ''error'')
                  (searchParams_get ps ''error_description'')
                  (searchParams_get ps ''error_uri''))],
            Resolved None)
         \<and> token_requests
             (fst (initialize e (Resolved (Some config)) (Resolved True) (Resolved (Some as)))) = []"
  using assms by (simp add: initialize_enabled oauthError_iff opt_get_def token_requests_def)

theorem error_response_resolves_absent_witness:
  "urlParams_of env_error config0
     = Some [(''error'', ''access_denied''), (''error_description'', ''denied'')]
   \<and> searchParams_get [(''error'', ''access_denied''), (''error_description'', ''denied'')] ''error''
       \<noteq> None
   \<and> initialize env_error (Resolved (Some config0)) (Resolved True) (Resolved (Some as0)) =
       ([Log Error ''OpenID Connect error''
           (POAuth2Error (Some ''access_denied'') (Some ''denied'') None)],
        Resolved None)"
  using error_response_resolves_absent
    [of env_error config0 "[(''error'', ''access_denied''), (''error_description'', ''denied'')]" as0]
  by (simp add: urlParams_env_error searchParams_get_def)

text \<open>
  C8: the \<^verbatim>\<open>enabled\<close> promise always resolves, and it resolves to true exactly when
  the configuration document was fetched, parsed to a non-null value, and has
  \<^verbatim>\<open>OidcConfig.method\<close> equal to \<^verbatim>\<open>oidc\<close> and a \<^verbatim>\<open>provider\<close> that is not null. When
  the document is absent or does not parse, the constructor leaves the service with no
  configuration, disabled, without provider metadata and without a session: all four
  promises resolve, none rejects.
\<close>

theorem oidc_enabled_iff_parsed_config:
  "isOidcEnabled (load_config parse r) =
     Resolved (\<exists>data c. r = FetchOk data \<and> parse data = Parsed c
                 \<and> auth_method c = Some ''oidc'' \<and> provider c \<noteq> None)
   \<and> OidcService_new e parse FetchFailed =
       ([Log Debug ''OpenID authorization is disabled'' NoPayload],
        \<lparr>this_config = Resolved None, this_enabled = Resolved False,
         this_oidcMetadata = Resolved None, this_userInfo = Resolved None\<rparr>)
   \<and> (parse data = ParseThrows \<longrightarrow>
        OidcService_new e parse (FetchOk data) =
          ([Log Debug ''OpenID authorization is disabled'' NoPayload],
           \<lparr>this_config = Resolved None, this_enabled = Resolved False,
            this_oidcMetadata = Resolved None, this_userInfo = Resolved None\<rparr>))"
proof (intro conjI impI)
  show "isOidcEnabled (load_config parse r) =
     Resolved (\<exists>data c. r = FetchOk data \<and> parse data = Parsed c
                 \<and> auth_method c = Some ''oidc'' \<and> provider c \<noteq> None)"
    by (cases r)
       (simp_all add: isOidcEnabled_def load_config_def fetchPath_def config_success_def
          split: parsed.splits)
  show "OidcService_new e parse FetchFailed =
       ([Log Debug ''OpenID authorization is disabled'' NoPayload],
        \<lparr>this_config = Resolved None, this_enabled = Resolved False,
         this_oidcMetadata = Resolved None, this_userInfo = Resolved None\<rparr>)"
    by (simp add: OidcService_new_def load_config_def fetchPath_def isOidcEnabled_def
        fetchOidcMetadata_def initialize_def await_Resolved)
next
  assume "parse data = ParseThrows"
  then show "OidcService_new e parse (FetchOk data) =
          ([Log Debug ''OpenID authorization is disabled'' NoPayload],
           \<lparr>this_config = Resolved None, this_enabled = Resolved False,
            this_oidcMetadata = Resolved None, this_userInfo = Resolved None\<rparr>)"
    by (simp add: OidcService_new_def load_config_def fetchPath_def config_success_def
        isOidcEnabled_def fetchOidcMetadata_def initialize_def await_Resolved)
qed

theorem oidc_enabled_iff_parsed_config_witness:
  "config_table ''{'' = ParseThrows
   \<and> OidcService_new env0 config_table (FetchOk ''{'') =
       ([Log Debug ''OpenID authorization is disabled'' NoPayload],
        \<lparr>this_config = Resolved None, this_enabled = Resolved False,
         this_oidcMetadata = Resolved None, this_userInfo = Resolved None\<rparr>)
   \<and> isOidcEnabled (load_config config_table (FetchOk config0_json)) = Resolved True
   \<and> isOidcEnabled (load_config config_table (FetchOk ''null'')) = Resolved False"
  using oidc_enabled_iff_parsed_config [of config_table "FetchOk config0_json" env0 "''{''"]
        oidc_enabled_iff_parsed_config [of config_table "FetchOk ''null''" env0 "''{''"]
  by (simp add: config_table_brace config_table_config0)
     (simp add: config0_def config_table_def config0_json_def)

text \<open>
  C4: let the URL carry every required success parameter. If nothing is stored under
  \<^verbatim>\<open>hawtio-oidc-login\<close>, or the stored object lacks \<^verbatim>\<open>cv\<close> or \<^verbatim>\<open>st\<close>,
  then \<^verbatim>\<open>initialize\<close> resolves to no session and never calls
  \<^verbatim>\<open>authorizationCodeGrantRequest\<close>. If the URL has no \<^verbatim>\<open>error\<close> parameter, the
  response validates, and the stored object has both fields, then
  \<^verbatim>\<open>authorizationCodeGrantRequest\<close> is called exactly once, with the validated
  response, the configured redirect URI and the stored \<^verbatim>\<open>cv\<close> as code verifier.
  (The source does not compare the stored \<^verbatim>\<open>st\<close> with the returned state, so the
  second part holds for every stored state value, a matching one included.)
\<close>

theorem pending_login_state_guards_exchange:
  assumes "urlParams_of e config = Some ps" and "oauthSuccess as (Some ps)"
  shows "(localStorage_getItem e ''hawtio-oidc-login'' = None
           \<or> (\<exists>str login. localStorage_getItem e ''hawtio-oidc-login'' = Some str
                 \<and> JSON_parse e str = Parsed login
                 \<and> (\<not> truthy (ld_cv login) \<or> \<not> truthy (ld_st login)))
          \<longrightarrow> snd (initialize e (Resolved (Some config)) (Resolved True) (Resolved (Some as)))
                = Resolved None
              \<and> token_requests
                  (fst (initialize e (Resolved (Some config)) (Resolved True) (Resolved (Some as))))
                = [])
       \<and> (searchParams_get ps ''error'' = None
            \<and> validateAuthResponse e as (client_of config) ps (searchParams_get ps ''state'')
                = Inr authResponse
            \<and> localStorage_getItem e ''hawtio-oidc-login'' = Some str \<and> str \<noteq> []
            \<and> JSON_parse e str = Parsed login
            \<and> truthy (ld_cv login) \<and> truthy (ld_st login)
          \<longrightarrow> token_requests
                 (fst (initialize e (Resolved (Some config)) (Resolved True) (Resolved (Some as))))
               = [AuthorizationCodeGrantRequest (Some authResponse) (redirect_uri config)
                    (ld_cv login)])"
proof (intro conjI impI)
  assume u: "localStorage_getItem e ''hawtio-oidc-login'' = None
           \<or> (\<exists>str login. localStorage_getItem e ''hawtio-oidc-login'' = Some str
                 \<and> JSON_parse e str = Parsed login
                 \<and> (\<not> truthy (ld_cv login) \<or> \<not> truthy (ld_st login)))"
  show "snd (initialize e (Resolved (Some config)) (Resolved True) (Resolved (Some as)))
          = Resolved None"
    using assms authorization_response_unusable [OF u]
    by (simp add: initialize_enabled)
  show "token_requests
          (fst (initialize e (Resolved (Some config)) (Resolved True) (Resolved (Some as)))) = []"
    using assms authorization_response_unusable [OF u]
    by (simp add: initialize_enabled) (simp add: token_requests_def)
next
  assume h: "searchParams_get ps ''error'' = None
            \<and> validateAuthResponse e as (client_of config) ps (searchParams_get ps ''state'')
                = Inr authResponse
            \<and> localStorage_getItem e ''hawtio-oidc-login'' = Some str \<and> str \<noteq> []
            \<and> JSON_parse e str = Parsed login
            \<and> truthy (ld_cv login) \<and> truthy (ld_st login)"
  then have "initialize e (Resolved (Some config)) (Resolved True) (Resolved (Some as))
               = token_exchange e config as ps (Some authResponse)"
    using assms by (simp add: initialize_enabled oauthError_iff authorization_response_def)
  moreover have "token_exchange e config as ps (Some authResponse) =
      emit [Log Info ''Getting localStore data, because we have params'' (PParams ps)]
        (code_grant e config as (Some authResponse) login)"
    using h by (simp add: token_exchange_parsed)
  ultimately show "token_requests
          (fst (initialize e (Resolved (Some config)) (Resolved True) (Resolved (Some as))))
          = [AuthorizationCodeGrantRequest (Some authResponse) (redirect_uri config) (ld_cv login)]"
    by (simp add: token_requests_emit code_grant_requests) (simp add: token_requests_def)
qed

theorem pending_login_state_guards_exchange_witness:
  "(urlParams_of env_back config0 = Some [(''code'', ''c1''), (''state'', ''s1'')]
    \<and> oauthSuccess as0 (Some [(''code'', ''c1''), (''state'', ''s1'')])
    \<and> localStorage_getItem env_back ''hawtio-oidc-login'' = None
    \<and> snd (initialize env_back (Resolved (Some config0)) (Resolved True) (Resolved (Some as0)))
        = Resolved None
    \<and> token_requests
        (fst (initialize env_back (Resolved (Some config0)) (Resolved True) (Resolved (Some as0))))
        = [])
   \<and> (urlParams_of env_partial config0 = Some [(''code'', ''c1''), (''state'', ''s1'')]
      \<and> localStorage_getItem env_partial ''hawtio-oidc-login'' = Some nonce_only_json
      \<and> JSON_parse env_partial nonce_only_json
          = Parsed \<lparr>ld_st = None, ld_cv = None, ld_n = Some ''n1'', ld_h = None\<rparr>
      \<and> snd (initialize env_partial (Resolved (Some config0)) (Resolved True) (Resolved (Some as0)))
          = Resolved None
      \<and> token_requests
          (fst (initialize env_partial (Resolved (Some config0)) (Resolved True)
                  (Resolved (Some as0))))
          = [])
   \<and> (urlParams_of env_login config0 = Some [(''code'', ''c1''), (''state'', ''s1'')]
      \<and> localStorage_getItem env_login ''hawtio-oidc-login'' = Some login0_json
      \<and> JSON_parse env_login login0_json = Parsed login0
      \<and> token_requests
          (fst (initialize env_login (Resolved (Some config0)) (Resolved True) (Resolved (Some as0))))
          = [AuthorizationCodeGrantRequest (Some [(''code'', ''c1''), (''state'', ''s1'')])
               ''https://app.example/cb'' (Some ''v1'')])"
proof -
  have absent: "localStorage_getItem env_back ''hawtio-oidc-login'' = None"
    by (simp add: env_back_def env0_def)
  have partial: "localStorage_getItem env_partial ''hawtio-oidc-login'' = Some nonce_only_json"
    "JSON_parse env_partial nonce_only_json
       = Parsed \<lparr>ld_st = None, ld_cv = None, ld_n = Some ''n1'', ld_h = None\<rparr>"
    by (simp_all add: env_partial_def env_back_def env0_def stored_login_def json_table_def
        nonce_only_json_def login0_json_def)
  have present: "localStorage_getItem env_login ''hawtio-oidc-login'' = Some login0_json"
    "JSON_parse env_login login0_json = Parsed login0"
    "validateAuthResponse env_login as0 (client_of config0) [(''code'', ''c1''), (''state'', ''s1'')]
       (searchParams_get [(''code'', ''c1''), (''state'', ''s1'')] ''state'')
       = Inr [(''code'', ''c1''), (''state'', ''s1'')]"
    by (simp_all add: env_login_def env_back_def env0_def stored_login_def json_table_login0)
  have fields: "ld_st login0 = Some ''s1''" "ld_cv login0 = Some ''v1''"
    "redirect_uri config0 = ''https://app.example/cb''"
    "searchParams_get [(''code'', ''c1''), (''state'', ''s1'')] ''error'' = None"
    by (simp_all add: login0_def config0_def searchParams_get_def)
  show ?thesis
    using pending_login_state_guards_exchange [OF urlParams_env_back oauthSuccess_code_state]
          pending_login_state_guards_exchange [OF urlParams_env_partial oauthSuccess_code_state]
          pending_login_state_guards_exchange [OF urlParams_env_login oauthSuccess_code_state,
              of "[(''code'', ''c1''), (''state'', ''s1'')]" login0_json login0]
    by (simp add: urlParams_env_back urlParams_env_partial urlParams_env_login
        oauthSuccess_code_state absent partial present fields login0_json_nonempty truthy_def)
qed

text \<open>
  C5: a response whose validation fails, for whatever reason, must resolve the bootstrap
  to no session and never reject. The source returns \<^verbatim>\<open>null\<close> from the
  \<^verbatim>\<open>catch\<close> block only for an \<^verbatim>\<open>AuthorizationResponseError\<close>. An exception of any
  other class leaves the block with \<^verbatim>\<open>authResponse\<close> undefined, and the flow goes on
  as if validation had passed: the stored login state is read and parsed, so the promise
  rejects when the stored text does not parse or is \<^verbatim>\<open>null\<close>, and with an intact
  stored state \<^verbatim>\<open>authorizationCodeGrantRequest\<close> is called without a validated
  response.
\<close>

theorem validation_failure_of_other_class_is_swallowed:
  assumes "urlParams_of e config = Some ps" and "searchParams_get ps ''error'' = None"
    and "oauthSuccess as (Some ps)"
    and "validateAuthResponse e as (client_of config) ps (searchParams_get ps ''state'') = Inl ex"
    and "ex \<noteq> AuthorizationResponseError"
    and "localStorage_getItem e ''hawtio-oidc-login'' = Some str" and "str \<noteq> []"
  shows "(JSON_parse e str = ParseThrows \<longrightarrow>
            initialize e (Resolved (Some config)) (Resolved True) (Resolved (Some as)) =
              ([Log Info ''Getting localStore data, because we have params'' (PParams ps)],
               Rejected SyntaxError))
       \<and> (JSON_parse e str = ParsedNull \<longrightarrow>
            initialize e (Resolved (Some config)) (Resolved True) (Resolved (Some as)) =
              ([Log Info ''Getting localStore data, because we have params'' (PParams ps)],
               Rejected TypeError))
       \<and> (JSON_parse e str = Parsed login \<and> truthy (ld_cv login) \<and> truthy (ld_st login) \<longrightarrow>
            token_requests
              (fst (initialize e (Resolved (Some config)) (Resolved True) (Resolved (Some as))))
            = [AuthorizationCodeGrantRequest None (redirect_uri config) (ld_cv login)])"
proof -
  have eq: "initialize e (Resolved (Some config)) (Resolved True) (Resolved (Some as))
              = token_exchange e config as ps None"
    using assms(1-5) by (simp add: initialize_enabled oauthError_iff authorization_response_def)
  have t: "truthy (localStorage_getItem e ''hawtio-oidc-login'')"
    using assms(6,7) by (simp add: truthy_def)
  have throws: "JSON_parse e str = ParseThrows \<longrightarrow>
      token_exchange e config as ps None =
        ([Log Info ''Getting localStore data, because we have params'' (PParams ps)],
         Rejected SyntaxError)"
    using assms(6) t by (simp add: token_exchange_def emit_def)
  have null: "JSON_parse e str = ParsedNull \<longrightarrow>
      token_exchange e config as ps None =
        ([Log Info ''Getting localStore data, because we have params'' (PParams ps)],
         Rejected TypeError)"
    using assms(6) t by (simp add: token_exchange_def emit_def)
  have call: "JSON_parse e str = Parsed login \<and> truthy (ld_cv login) \<and> truthy (ld_st login) \<longrightarrow>
      token_requests (fst (token_exchange e config as ps None))
        = [AuthorizationCodeGrantRequest None (redirect_uri config) (ld_cv login)]"
  proof
    assume h: "JSON_parse e str = Parsed login \<and> truthy (ld_cv login) \<and> truthy (ld_st login)"
    then have "token_exchange e config as ps None =
        emit [Log Info ''Getting localStore data, because we have params'' (PParams ps)]
          (code_grant e config as None login)"
      using assms(6,7) by (simp add: token_exchange_parsed)
    then show "token_requests (fst (token_exchange e config as ps None))
        = [AuthorizationCodeGrantRequest None (redirect_uri config) (ld_cv login)]"
      by (simp add: token_requests_emit code_grant_requests) (simp add: token_requests_def)
  qed
  from throws null call show ?thesis unfolding eq by blast
qed

theorem validation_failure_of_other_class_is_swallowed_witness:
  "urlParams_of env_mixup config0
     = Some [(''code'', ''c1''), (''state'', ''s1''), (''iss'', ''https://other.example'')]
   \<and> oauthSuccess as_iss
        (Some [(''code'', ''c1''), (''state'', ''s1''), (''iss'', ''https://other.example'')])
   \<and> validateAuthResponse env_mixup as_iss (client_of config0)
        [(''code'', ''c1''), (''state'', ''s1''), (''iss'', ''https://other.example'')] (Some ''s1'')
       = Inl OperationProcessingError
   \<and> localStorage_getItem env_mixup ''hawtio-oidc-login'' = Some ''{''
   \<and> JSON_parse env_mixup ''{'' = ParseThrows
   \<and> initialize env_mixup (Resolved (Some config0)) (Resolved True) (Resolved (Some as_iss)) =
       ([Log Info ''Getting localStore data, because we have params''
           (PParams [(''code'', ''c1''), (''state'', ''s1''), (''iss'', ''https://other.example'')])],
        Rejected SyntaxError)
   \<and> localStorage_getItem env_mixup_login ''hawtio-oidc-login'' = Some login0_json
   \<and> JSON_parse env_mixup_login login0_json = Parsed login0
   \<and> token_requests
        (fst (initialize env_mixup_login (Resolved (Some config0)) (Resolved True)
                (Resolved (Some as_iss))))
       = [AuthorizationCodeGrantRequest None ''https://app.example/cb'' (Some ''v1'')]"
proof -
  let ?ps = "[(''code'', ''c1''), (''state'', ''s1''), (''iss'', ''https://other.example'')]"
  have success: "oauthSuccess as_iss (Some ?ps)"
    by (simp add: oauthSuccess_def goodParamsRequired_def as_iss_def as0_def searchParams_get_def)
  have noerr: "searchParams_get ?ps ''error'' = None"
    and st: "searchParams_get ?ps ''state'' = Some ''s1''"
    by (simp_all add: searchParams_get_def)
  have truncated: "localStorage_getItem env_mixup ''hawtio-oidc-login'' = Some ''{''"
    "JSON_parse env_mixup ''{'' = ParseThrows"
    "validateAuthResponse env_mixup as_iss (client_of config0) ?ps (searchParams_get ?ps ''state'')
       = Inl OperationProcessingError"
    by (simp_all add: env_mixup_def env0_def stored_login_def json_table_def login0_json_def
        nonce_only_json_def)
  have intact: "localStorage_getItem env_mixup_login ''hawtio-oidc-login'' = Some login0_json"
    "JSON_parse env_mixup_login login0_json = Parsed login0"
    "validateAuthResponse env_mixup_login as_iss (client_of config0) ?ps
       (searchParams_get ?ps ''state'') = Inl OperationProcessingError"
    by (simp_all add: env_mixup_login_def env_mixup_def env0_def stored_login_def
        json_table_login0)
  have other: "OperationProcessingError \<noteq> AuthorizationResponseError" "''{'' \<noteq> []"
    by simp_all
  have fields: "ld_st login0 = Some ''s1''" "ld_cv login0 = Some ''v1''"
    "redirect_uri config0 = ''https://app.example/cb''"
    by (simp_all add: login0_def config0_def)
  show ?thesis
    using validation_failure_of_other_class_is_swallowed
            [OF urlParams_env_mixup noerr success truncated(3) other(1) truncated(1) other(2),
             of login0]
          validation_failure_of_other_class_is_swallowed
            [OF urlParams_env_mixup_login noerr success intact(3) other(1) intact(1)
                login0_json_nonempty, of login0]
    by (simp add: urlParams_env_mixup success truncated truncated(3) [unfolded st] intact st fields
        truthy_def)
qed

text \<open>
  C7 (as stated): the query parameters of the redirect URL are exactly the named set. The
  source builds the URL from the provider's \<^verbatim>\<open>authorization_endpoint\<close> with
  \<^verbatim>\<open>searchParams.set\<close>, which keeps every parameter the endpoint already has. With
  the endpoint \<^verbatim>\<open>https://idp.example/authorize?p=signin\<close>, response mode
  \<^verbatim>\<open>query\<close> and an empty query string on the page, the redirect URL carries
  \<^verbatim>\<open>p=signin\<close>, which is none of the named parameters.
\<close>

theorem authorization_endpoint_query_counterexample:
  "response_mode config0 = ''query'' \<and> location_search env0 = []
   \<and> redirect_targets
       (fst (initialize env0 (Resolved (Some config0)) (Resolved True) (Resolved (Some as_query))))
     = [\<lparr>url_base = ''https://idp.example'', pathname = ''/authorize'',
         searchParams =
           [(''p'', ''signin''), (''response_type'', ''code''), (''response_mode'', ''query''),
            (''client_id'', ''abc''), (''redirect_uri'', ''https://app.example/cb''),
            (''scope'', ''openid profile''), (''code_challenge_method'', ''S256''),
            (''code_challenge'', ''ch1''), (''state'', ''s1''), (''nonce'', ''n1'')],
         url_hash = []\<rparr>]
   \<and> (''p'', ''signin'') \<notin> named_query_params config0 ''ch1'' ''s1'' ''n1''"
proof -
  have "initialize env0 (Resolved (Some config0)) (Resolved True) (Resolved (Some as_query))
          = login_redirect env0 config0 as_query"
    by (simp add: initialize_enabled urlParams_env0 oauthError_def oauthSuccess_def)
  moreover have "redirect_targets (fst (login_redirect env0 config0 as_query))
     = [\<lparr>url_base = ''https://idp.example'', pathname = ''/authorize'',
         searchParams =
           [(''p'', ''signin''), (''response_type'', ''code''), (''response_mode'', ''query''),
            (''client_id'', ''abc''), (''redirect_uri'', ''https://app.example/cb''),
            (''scope'', ''openid profile''), (''code_challenge_method'', ''S256''),
            (''code_challenge'', ''ch1''), (''state'', ''s1''), (''nonce'', ''n1'')],
         url_hash = []\<rparr>]"
    by (simp add: login_redirect_def env0_def as_query_def as0_def url_table_def config0_def
        authorization_url_def url_set_def emit_def Let_def)
  moreover have "(''p'', ''signin'') \<notin> named_query_params config0 ''ch1'' ''s1'' ''n1''"
    by (simp add: named_query_params_def config0_def)
  ultimately show ?thesis
    by (simp add: config0_def env0_def)
qed

text \<open>
  C7 (amended): in a secure context, with no \<^verbatim>\<open>error\<close> parameter and not all success
  parameters in the URL, \<^verbatim>\<open>initialize\<close> redirects once and never settles. The query
  parameters of the redirect URL are those of the provider's authorization endpoint whose
  names are not among the names set, together with exactly \<^verbatim>\<open>response_type=code\<close>,
  \<^verbatim>\<open>response_mode\<close>, \<^verbatim>\<open>client_id\<close>, \<^verbatim>\<open>redirect_uri\<close>, \<^verbatim>\<open>scope\<close>,
  \<^verbatim>\<open>state\<close>, \<^verbatim>\<open>nonce\<close>, and \<^verbatim>\<open>code_challenge_method\<close> and
  \<^verbatim>\<open>code_challenge\<close> exactly when a challenge method is configured; \<^verbatim>\<open>prompt\<close>
  is never set. When the endpoint has no query of its own, the parameters are exactly
  that set.
\<close>

theorem authorization_redirect_params:
  assumes "\<not> oauthError (urlParams_of e config)" and "\<not> oauthSuccess as (urlParams_of e config)"
    and "isSecureContext e" and "authorization_endpoint as = Some ep"
    and "URL_new e ep = Some authorizationUrl" and "URL_new e (location_href e) = Some u"
  shows "\<exists>target.
           redirect_targets
             (fst (initialize e (Resolved (Some config)) (Resolved True) (Resolved (Some as))))
             = [target]
           \<and> snd (initialize e (Resolved (Some config)) (Resolved True) (Resolved (Some as)))
               = Pending
           \<and> set (searchParams target) =
               {p \<in> set (searchParams authorizationUrl).
                  fst p \<notin> fst ` named_query_params config
                             (calculatePKCECodeChallenge e (generateRandomCodeVerifier e))
                             (generateRandomState e) (generateRandomNonce e)}
               \<union> named_query_params config
                   (calculatePKCECodeChallenge e (generateRandomCodeVerifier e))
                   (generateRandomState e) (generateRandomNonce e)
           \<and> (searchParams authorizationUrl = [] \<longrightarrow>
                set (searchParams target) =
                  named_query_params config
                    (calculatePKCECodeChallenge e (generateRandomCodeVerifier e))
                    (generateRandomState e) (generateRandomNonce e))"
proof -
  have eq: "initialize e (Resolved (Some config)) (Resolved True) (Resolved (Some as))
              = login_redirect e config as"
    using assms(1,2) by (simp add: initialize_enabled)
  show ?thesis
    unfolding eq
    using login_redirect_targets [OF assms(3-6), of config]
    by (simp add: authorization_url_params)
qed

theorem authorization_redirect_params_witness:
  "\<not> oauthError (urlParams_of env0 config0) \<and> \<not> oauthSuccess as0 (urlParams_of env0 config0)
   \<and> isSecureContext env0
   \<and> URL_new env0 ''https://idp.example/authorize''
       = Some \<lparr>url_base = ''https://idp.example'', pathname = ''/authorize'',
               searchParams = [], url_hash = []\<rparr>
   \<and> (\<exists>target.
         redirect_targets
           (fst (initialize env0 (Resolved (Some config0)) (Resolved True) (Resolved (Some as0))))
           = [target]
         \<and> set (searchParams target) = named_query_params config0 ''ch1'' ''s1'' ''n1'')"
proof -
  have h: "\<not> oauthError (urlParams_of env0 config0)" "\<not> oauthSuccess as0 (urlParams_of env0 config0)"
    "isSecureContext env0" "authorization_endpoint as0 = Some ''https://idp.example/authorize''"
    "URL_new env0 ''https://idp.example/authorize''
       = Some \<lparr>url_base = ''https://idp.example'', pathname = ''/authorize'',
               searchParams = [], url_hash = []\<rparr>"
    "URL_new env0 (location_href env0)
       = Some \<lparr>url_base = ''https://app.example'', pathname = ''/hawtio/jmx'',
              searchParams = [], url_hash = []\<rparr>"
    by (simp_all add: urlParams_env0 oauthError_def oauthSuccess_def)
       (simp_all add: env0_def as0_def url_table_def)
  have g: "calculatePKCECodeChallenge env0 (generateRandomCodeVerifier env0) = ''ch1''"
    "generateRandomState env0 = ''s1''" "generateRandomNonce env0 = ''n1''"
    by (simp_all add: env0_def)
  show ?thesis
    using authorization_redirect_params [OF h] h by (auto simp add: g)
qed

text \<open>
  C2: a refresh without a refresh token must not contact the token endpoint and must
  invoke the failure callback. The source does the first and not the second: when the
  session has no refresh token, \<^verbatim>\<open>updateToken\<close> logs an error and returns; no
  callback is invoked, whether or not a failure callback was passed, and the promise of
  an intercepted request that needed the refresh never settles.
\<close>

theorem updateToken_without_refresh_token_is_silent:
  assumes "this_userInfo s = Resolved (Some u)" and "\<not> truthy (refresh_token u)"
  shows "updateToken e failure s =
           \<lparr>upd_trace = [Log Error ''No refresh token available'' NoPayload],
            upd_callback = NoCallback, upd_promise = Resolved (), upd_service = s\<rparr>
         \<and> (\<not> truthy (access_token u) \<or> isTokenExpiring (Date_now e) (at_exp u) \<longrightarrow>
              window_fetch (Suc fuel) e s (Some u) req =
                Some ([Log Debug ''Fetch - Fetch intercepted for OIDC authentication'' NoPayload,
                       Log Debug ''Fetch - Try to update token for request:''
                         (PString (Some (req_input req))),
                       Log Error ''No refresh token available'' NoPayload],
                      Pending, s))"
proof -
  have r: "updateToken e failure s
             = returns [Log Error ''No refresh token available'' NoPayload] s" for failure
    by (rule updateToken_no_refresh_token [OF assms])
  show ?thesis
    by (auto simp add: r returns_def)
qed

theorem updateToken_without_refresh_token_is_silent_witness:
  "this_userInfo service_no_rt = Resolved (Some session_no_rt)
   \<and> \<not> truthy (refresh_token session_no_rt)
   \<and> isTokenExpiring (Date_now env0) (at_exp session_no_rt)
   \<and> updateToken env0 True service_no_rt =
       \<lparr>upd_trace = [Log Error ''No refresh token available'' NoPayload],
        upd_callback = NoCallback, upd_promise = Resolved (), upd_service = service_no_rt\<rparr>
   \<and> window_fetch (Suc 0) env0 service_no_rt (Some session_no_rt) request0 =
       Some ([Log Debug ''Fetch - Fetch intercepted for OIDC authentication'' NoPayload,
              Log Debug ''Fetch - Try to update token for request:''
                (PString (Some ''/hawtio/jolokia'')),
              Log Error ''No refresh token available'' NoPayload],
             Pending, service_no_rt)"
proof -
  have u: "this_userInfo service_no_rt = Resolved (Some session_no_rt)"
    "\<not> truthy (refresh_token session_no_rt)"
    by (simp_all add: service_no_rt_def session_no_rt_def truthy_def)
  have x: "isTokenExpiring (Date_now env0) (at_exp session_no_rt)"
    by (simp add: isTokenExpiring_def env0_def session_no_rt_def session0_def)
  show ?thesis
    using updateToken_without_refresh_token_is_silent [OF u, of env0 True 0 request0] u x
    by (simp add: request0_def)
qed

text \<open>
  C3: every failing refresh must invoke the failure callback and leave the credentials
  as they were. In the source both kinds of failure leave the service unchanged. A
  rejected \<^verbatim>\<open>refreshTokenGrantRequest\<close> invokes the failure callback (when one was
  passed); a rejected \<^verbatim>\<open>processRefreshTokenResponse\<close> is logged and
  \<^verbatim>\<open>updateToken\<close> returns without invoking any callback.
\<close>

theorem refresh_response_failure_is_silent:
  assumes "this_userInfo s = Resolved (Some u)" and "truthy (refresh_token u)"
    and "this_config s = Resolved (Some config)" and "this_enabled s = Resolved True"
    and "this_oidcMetadata s = Resolved (Some as)"
  shows "(refreshTokenGrantRequest e as (client_of config) (refresh_token u) = Inl ex \<longrightarrow>
            updateToken e failure s =
              \<lparr>upd_trace = [RefreshTokenGrantRequest (refresh_token u),
                            Log Error ''Problem refreshing token'' (PExn ex)],
               upd_callback = (if failure then FailureCallback else NoCallback),
               upd_promise = Resolved (), upd_service = s\<rparr>)
         \<and> (refreshTokenGrantRequest e as (client_of config) (refresh_token u) = Inr res
              \<and> processRefreshTokenResponse e as (client_of config) res = Inl ex \<longrightarrow>
            updateToken e failure s =
              \<lparr>upd_trace = [RefreshTokenGrantRequest (refresh_token u),
                            Log Error ''Problem processing refresh token response'' (PExn ex)],
               upd_callback = NoCallback,
               upd_promise = Resolved (), upd_service = s\<rparr>)"
  by (simp add: updateToken_ready [OF assms] refresh_grant_def returns_def)

theorem refresh_response_failure_is_silent_witness:
  "this_userInfo service0 = Resolved (Some session0) \<and> truthy (refresh_token session0)
   \<and> refreshTokenGrantRequest env_refused as0 (client_of config0) (Some ''R0'')
       = Inr (HttpResponse 400 ''invalid_grant'')
   \<and> processRefreshTokenResponse env_refused as0 (client_of config0)
         (HttpResponse 400 ''invalid_grant'') = Inl (OtherError ''invalid_grant'')
   \<and> updateToken env_refused True service0 =
       \<lparr>upd_trace = [RefreshTokenGrantRequest (Some ''R0''),
                     Log Error ''Problem processing refresh token response''
                       (PExn (OtherError ''invalid_grant''))],
        upd_callback = NoCallback, upd_promise = Resolved (), upd_service = service0\<rparr>
   \<and> refreshTokenGrantRequest env_offline as0 (client_of config0) (Some ''R0'')
       = Inl (OtherError ''offline'')
   \<and> updateToken env_offline True service0 =
       \<lparr>upd_trace = [RefreshTokenGrantRequest (Some ''R0''),
                     Log Error ''Problem refreshing token'' (PExn (OtherError ''offline''))],
        upd_callback = FailureCallback, upd_promise = Resolved (), upd_service = service0\<rparr>"
proof -
  have c: "refreshTokenGrantRequest env_refused as0 (client_of config0) (Some ''R0'')
             = Inr (HttpResponse 400 ''invalid_grant'')"
    "processRefreshTokenResponse env_refused as0 (client_of config0)
         (HttpResponse 400 ''invalid_grant'') = Inl (OtherError ''invalid_grant'')"
    "refreshTokenGrantRequest env_offline as0 (client_of config0) (Some ''R0'')
       = Inl (OtherError ''offline'')"
    by (simp_all add: env_refused_def env_offline_def)
  show ?thesis
    using refresh_response_failure_is_silent [OF service0_fields(1) service0_fields(5) service0_fields(2-4),
              of env_refused "OtherError ''invalid_grant''" True "HttpResponse 400 ''invalid_grant''"]
          refresh_response_failure_is_silent [OF service0_fields(1) service0_fields(5) service0_fields(2-4),
              of env_offline "OtherError ''offline''" True "HttpResponse 400 ''invalid_grant''"]
    by (simp add: c service0_fields truthy_def)
qed

text \<open>
  C9: when a refresh succeeds (the request resolves, the response is processed, the new
  access token decodes), the success callback receives the stored credentials, whose
  \<^verbatim>\<open>refresh_token\<close> is the \<^verbatim>\<open>refresh_token\<close> field of the refresh response,
  whatever it is. If the response has none, every later call of \<^verbatim>\<open>updateToken\<close>,
  in any environment, logs that no refresh token is available and returns without
  contacting the token endpoint and without changing the service.
\<close>

theorem refresh_overwrites_refresh_token:
  assumes "this_userInfo s = Resolved (Some u)" and "truthy (refresh_token u)"
    and "this_config s = Resolved (Some config)" and "this_enabled s = Resolved True"
    and "this_oidcMetadata s = Resolved (Some as)"
    and "refreshTokenGrantRequest e as (client_of config) (refresh_token u) = Inr res"
    and "processRefreshTokenResponse e as (client_of config) res = Inr refreshResponse"
    and "jwtDecode e (tr_access_token refreshResponse) = Inr decoded"
  shows "\<exists>u'. upd_callback (updateToken e failure s) = SuccessCallback u'
              \<and> this_userInfo (upd_service (updateToken e failure s)) = Resolved (Some u')
              \<and> refresh_token u' = tr_refresh_token refreshResponse
              \<and> (tr_refresh_token refreshResponse = None \<longrightarrow>
                   updateToken_all es failure' (upd_service (updateToken e failure s))
                     = replicate (length es)
                         (returns [Log Error ''No refresh token available'' NoPayload]
                            (upd_service (updateToken e failure s))))"
proof -
  have eq: "updateToken e failure s =
              store_refreshed e s u refreshResponse [RefreshTokenGrantRequest (refresh_token u)]"
    using assms(6,7) by (simp add: updateToken_ready [OF assms(1-5)] refresh_grant_def)
  obtain u' where u': "upd_callback (updateToken e failure s) = SuccessCallback u'"
      "this_userInfo (upd_service (updateToken e failure s)) = Resolved (Some u')"
      "refresh_token u' = tr_refresh_token refreshResponse"
    using store_refreshed_decoded [OF assms(8)] by (simp add: eq)
  have "tr_refresh_token refreshResponse = None \<longrightarrow>
          updateToken_all es failure' (upd_service (updateToken e failure s))
            = replicate (length es)
                (returns [Log Error ''No refresh token available'' NoPayload]
                   (upd_service (updateToken e failure s)))"
  proof
    assume "tr_refresh_token refreshResponse = None"
    then have "\<not> truthy (refresh_token u')" using u'(3) by (simp add: truthy_def)
    then show "updateToken_all es failure' (upd_service (updateToken e failure s))
            = replicate (length es)
                (returns [Log Error ''No refresh token available'' NoPayload]
                   (upd_service (updateToken e failure s)))"
      by (rule updateToken_all_no_refresh_token [OF u'(2)])
  qed
  with u' show ?thesis by (intro exI [of _ u']) simp
qed

theorem refresh_overwrites_refresh_token_witness:
  "this_userInfo service0 = Resolved (Some session0) \<and> truthy (refresh_token session0)
   \<and> processRefreshTokenResponse env_no_rotation as0 (client_of config0) (HttpResponse 200 ''tokens'')
       = Inr \<lparr>tr_access_token = ''T1'', tr_refresh_token = None\<rparr>
   \<and> (\<exists>u'. upd_callback (updateToken env_no_rotation True service0) = SuccessCallback u'
          \<and> this_userInfo (upd_service (updateToken env_no_rotation True service0))
              = Resolved (Some u')
          \<and> refresh_token u' = None
          \<and> map upd_trace
                (updateToken_all [env0, env_offline] True
                   (upd_service (updateToken env_no_rotation True service0)))
              = [[Log Error ''No refresh token available'' NoPayload],
                 [Log Error ''No refresh token available'' NoPayload]])"
  using refresh_overwrites_refresh_token [OF service0_fields(1) service0_fields(5) service0_fields(2-4)
              env_no_rotation_calls(1) env_no_rotation_calls(2),
            of "\<lparr>jwt_exp = Some 4600\<rparr>" True "[env0, env_offline]" True]
  by (auto simp add: service0_fields env_no_rotation_calls returns_def truthy_def)

text \<open>
  C10: when the refreshed access token does not decode as a JWT, \<^verbatim>\<open>jwtDecode\<close>
  throws out of \<^verbatim>\<open>updateToken\<close>: its promise rejects and neither callback has been
  invoked, so the promise that the fetch wrapper returned for a request with an absent or
  expiring token never settles. The decode in \<^verbatim>\<open>initialize\<close> is guarded: with the
  same token response the session step still resolves.
\<close>

theorem undecodable_refreshed_token_hangs_request:
  assumes "this_userInfo s = Resolved (Some u)" and "truthy (refresh_token u)"
    and "this_config s = Resolved (Some config)" and "this_enabled s = Resolved True"
    and "this_oidcMetadata s = Resolved (Some as)"
    and "refreshTokenGrantRequest e as (client_of config) (refresh_token u) = Inr res"
    and "processRefreshTokenResponse e as (client_of config) res = Inr refreshResponse"
    and "jwtDecode e (tr_access_token refreshResponse) = Inl ex"
  shows "upd_promise (updateToken e failure s) = Rejected ex
         \<and> upd_callback (updateToken e failure s) = NoCallback
         \<and> (\<not> truthy (access_token u) \<or> isTokenExpiring (Date_now e) (at_exp u) \<longrightarrow>
              map_option (\<lambda>r. fst (snd r)) (window_fetch (Suc fuel) e s (Some u) req)
                = Some Pending)
         \<and> (\<exists>session. snd (session_of e login refreshResponse) = Resolved session)"
proof -
  have eq: "updateToken e failure s =
              store_refreshed e s u refreshResponse [RefreshTokenGrantRequest (refresh_token u)]"
    for failure
    using assms(6,7) by (simp add: updateToken_ready [OF assms(1-5)] refresh_grant_def)
  have rej: "upd_promise (updateToken e failure s) = Rejected ex"
    and cb: "upd_callback (updateToken e failure s) = NoCallback"
    using assms(8) by (simp_all add: eq store_refreshed_def)
  have cb': "upd_callback (updateToken e True s) = NoCallback"
    using assms(8) by (simp add: eq store_refreshed_def)
  have hang: "map_option (\<lambda>r. fst (snd r)) (window_fetch (Suc fuel) e s (Some u) req)
                = Some Pending"
    if "\<not> truthy (access_token u) \<or> isTokenExpiring (Date_now e) (at_exp u)"
    using that cb' by auto
  have guarded: "\<exists>session. snd (session_of e login refreshResponse) = Resolved session"
    by (simp add: session_of_def snd_emit split: option.splits)
  from rej cb hang guarded show ?thesis by blast
qed

theorem undecodable_refreshed_token_hangs_request_witness:
  "this_userInfo service0 = Resolved (Some session0) \<and> truthy (refresh_token session0)
   \<and> processRefreshTokenResponse env_opaque as0 (client_of config0) (HttpResponse 200 ''tokens'')
       = Inr \<lparr>tr_access_token = ''opaque'', tr_refresh_token = Some ''R1''\<rparr>
   \<and> jwtDecode env_opaque ''opaque'' = Inl InvalidTokenError
   \<and> isTokenExpiring (Date_now env_opaque) (at_exp session0)
   \<and> upd_promise (updateToken env_opaque True service0) = Rejected InvalidTokenError
   \<and> upd_callback (updateToken env_opaque True service0) = NoCallback
   \<and> map_option (\<lambda>r. fst (snd r))
         (window_fetch (Suc 0) env_opaque service0 (Some session0) request0) = Some Pending"
proof -
  have x: "isTokenExpiring (Date_now env_opaque) (at_exp session0)"
    by (simp add: isTokenExpiring_def env_opaque_def env0_def session0_def)
  show ?thesis
    using undecodable_refreshed_token_hangs_request [OF service0_fields(1) service0_fields(5) service0_fields(2-4)
                env_opaque_calls(1) env_opaque_calls(2),
              of InvalidTokenError True 0 request0 login0] x
    by (simp add: service0_fields env_opaque_calls truthy_def)
qed

end
